theory Spec2Isabelle
  imports Complex_Main "HOL-Library.Log_Nat" "HOL-Library.Word"
begin

unbundle bit_operations_syntax

section \<open>Arithmetic of the C++ types used by mech/turret.cc\<close>

subsection \<open>double\<close>

text \<open>
  A finite IEEE 754 binary64 value is kept as the rational number it denotes. Every
  arithmetic operation of the source on doubles computes the exact result and rounds it to
  the nearest binary64 value, ties to even, which is what IEEE 754 prescribes for
  \<open>+\<close>, \<open>*\<close> and \<open>/\<close>; each operation rounds on its own (no fused
  multiply-add, no extended precision). NaN, the infinities, the sign of zero and overflow
  past the largest finite double are outside the model; comparisons are exact.
\<close>

type_synonym double = rat

definition pow2 :: "int \<Rightarrow> rat" where
  "pow2 e = (if 0 \<le> e then 2 ^ nat e else 1 / 2 ^ nat (- e))"

text \<open>The binade of a nonzero rational: the integer \<open>k\<close> with \<open>2^k \<le> |q| < 2^(k+1)\<close>.\<close>

definition binade :: "rat \<Rightarrow> int" where
  "binade q =
     (if 1 \<le> \<bar>q\<bar> then bitlen \<lfloor>\<bar>q\<bar>\<rfloor> - 1 else - bitlen (\<lceil>1 / \<bar>q\<bar>\<rceil> - 1))"

definition round_even :: "rat \<Rightarrow> int" where
  "round_even q =
     (let f = \<lfloor>q\<rfloor>; r = q - of_int f in
      if r < 1 / 2 then f
      else if 1 / 2 < r then f + 1
      else if even f then f else f + 1)"

text \<open>
  Rounding to binary64: 53 significant bits, so the unit in the last place of a value in
  binade \<open>k\<close> is \<open>2^(k - 52)\<close>, and never below \<open>2^(-1074)\<close> (the subnormal range).
\<close>

definition round_double :: "rat \<Rightarrow> double" where
  "round_double q =
     (if q = 0 then 0
      else let e = max (binade q - 52) (- 1074)
           in of_int (round_even (q / pow2 e)) * pow2 e)"

definition dadd :: "double \<Rightarrow> double \<Rightarrow> double" where
  "dadd a b = round_double (a + b)"

definition dmul :: "double \<Rightarrow> double \<Rightarrow> double" where
  "dmul a b = round_double (a * b)"

definition ddiv :: "double \<Rightarrow> double \<Rightarrow> double" where
  "ddiv a b = round_double (a / b)"

text \<open>
  \<open>std::max(a, b)\<close> is \<open>(a < b) ? b : a\<close> and \<open>std::min(a, b)\<close> is
  \<open>(b < a) ? b : a\<close>.
\<close>

definition std_max :: "'a::linorder \<Rightarrow> 'a \<Rightarrow> 'a" where
  "std_max a b = (if a < b then b else a)"

definition std_min :: "'a::linorder \<Rightarrow> 'a \<Rightarrow> 'a" where
  "std_min a b = (if b < a then b else a)"

subsection \<open>Failures\<close>

text \<open>
  \<open>OutOfRange\<close>: \<open>std::string::at\<close> throws \<open>std::out_of_range\<close>.
  \<open>Fatal\<close>: \<open>FailIf\<close> was called with an error code that is set.
  \<open>Undefined\<close>: a \<open>static_cast<int>\<close> of a double whose truncated value does
  not fit \<open>int\<close>, which C++ leaves undefined.
\<close>

datatype error = OutOfRange | Fatal | Undefined

definition and_then :: "error + 'a \<Rightarrow> ('a \<Rightarrow> error + 'b) \<Rightarrow> error + 'b" where
  "and_then m f = (case m of Inl e \<Rightarrow> Inl e | Inr v \<Rightarrow> f v)"

subsection \<open>Integers\<close>

text \<open>
  \<open>int\<close> and \<open>int32_t\<close> are the integers from \<open>-2^31\<close> to \<open>2^31 - 1\<close>,
  \<open>uint32_t\<close> and \<open>uint16_t\<close> are taken modulo \<open>2^32\<close> and \<open>2^16\<close>; values
  are HOL integers and each conversion of the source is written out. On HOL integers
  \<open>AND\<close>, \<open>OR\<close>, \<open>push_bit\<close> and \<open>drop_bit\<close> are the two's complement
  operations, \<open>drop_bit\<close> being the arithmetic right shift that \<open>>>\<close> is on a
  negative \<open>int\<close>.
\<close>

type_synonym uint8 = "8 word"

definition to_uint32 :: "int \<Rightarrow> int" where
  "to_uint32 i = take_bit 32 i"

definition to_uint16 :: "int \<Rightarrow> int" where
  "to_uint16 i = take_bit 16 i"

definition to_int32 :: "int \<Rightarrow> int" where
  "to_int32 i = signed_take_bit 31 i"

text \<open>\<open>static_cast<int>(x)\<close> for a double \<open>x\<close>: truncation towards zero.\<close>

definition static_cast_int :: "double \<Rightarrow> error + int" where
  "static_cast_int x =
     (let t = (if 0 \<le> x then \<lfloor>x\<rfloor> else \<lceil>x\<rceil>)
      in if - (2 ^ 31) \<le> t \<and> t < 2 ^ 31 then Inr t else Inl Undefined)"

section \<open>The data of turret.h, as turret.cc uses it\<close>

text \<open>
  Modelled from the spec: the types that turret.h declares, which is not among the sources.
  The records hold the fields that turret.cc reads and writes, under the names it uses,
  with the types the spec's data model gives them. \<open>TurretCommand::Imu\<close> and
  \<open>TurretCommand::Absolute\<close> both are a pair \<open>x_deg\<close> (yaw), \<open>y_deg\<close>
  (pitch). A time stamp is a number.
\<close>

record Imu =
  x_deg :: double
  y_deg :: double

type_synonym Absolute = Imu

record Rate =
  x_deg_s :: double
  y_deg_s :: double

record TurretCommand =
  sequence :: int
  absolute :: "Absolute option"
  imu :: "Imu option"
  rate :: "Rate option"
  laser_on :: bool

type_synonym ptime = nat

record CommandLog =
  log_timestamp :: ptime
  log_command :: TurretCommand

text \<open>
  \<open>TurretData\<close>, the \<open>data_\<close> member. Its fields \<open>imu\<close>, \<open>absolute\<close> and
  \<open>rate\<close> are \<open>data_imu\<close>, \<open>data_absolute\<close> and \<open>data_rate\<close> here, the
  plain names being the fields of \<open>TurretCommand\<close>.
\<close>

record TurretData =
  timestamp :: ptime
  imu_command :: "Imu option"
  data_imu :: Imu
  data_absolute :: Absolute
  fire_enabled :: bool
  agitator_enabled :: bool
  data_rate :: Rate
  last_sequence :: int

record Parameters =
  period_s :: double
  gimbal_address :: int
  fire_control_address :: int
  min_x_deg :: double
  max_x_deg :: double
  min_y_deg :: double
  max_y_deg :: double

text \<open>
  Modelled from the spec: \<open>TurretCommand::Rate()\<close>, the default rate of turret.h; the
  spec has the rate reset to zero.
\<close>

definition Rate0 :: Rate where
  "Rate0 = \<lparr>x_deg_s = 0, y_deg_s = 0\<rparr>"

section \<open>What the turret asks of its collaborators\<close>

text \<open>
  The servo link, the timer and the two signals are outside turret.cc. Each call on them
  is recorded, in the order the code makes it. A read names the member function that its
  completion is bound to.
\<close>

datatype completion = ToHandleCommand | ToHandleCurrent | ToHandleFireControl

datatype effect =
    MemRead int int int completion
  | MemWrite int int "uint8 list"
  | RamWrite int int int int
  | TimerStart double
  | TurretCommandSignal CommandLog
  | TurretDataSignal TurretData

text \<open>
  \<open>MemRead address position length completion\<close> and \<open>MemWrite address position data\<close>
  are \<open>servo_->MemRead(RAM_READ, ...)\<close> and \<open>servo_->MemWrite(RAM_WRITE, ...)\<close>;
  \<open>RamWrite address position length value\<close> is \<open>servo_->RamWrite(address, Field(),
  value, ...)\<close> for a register struct \<open>Field\<close> with that position and length. The
  writes complete in \<open>HandleWrite\<close>.
\<close>

datatype ErrorCode = ec_success | operation_aborted | ec_other nat

text \<open>
  Modelled from the spec: \<open>FailIf\<close> of base/fail.h, which is not among the sources.
  The spec makes every transport failure fatal to the poll chain; an error code that is set
  ends the program, one that is not set lets the caller go on.
\<close>

definition FailIf :: "ErrorCode \<Rightarrow> error + unit" where
  "FailIf ec = (if ec = ec_success then Inr () else Inl Fatal)"

section \<open>Parser\<close>

text \<open>\<open>Parser::get\<close>: \<open>register_data.at(index)\<close> as a byte.\<close>

definition get :: "uint8 list \<Rightarrow> int \<Rightarrow> error + uint8" where
  "get register_data index =
     (if 0 \<le> index \<and> nat index < length register_data
      then Inr (register_data ! nat index) else Inl OutOfRange)"

text \<open>
  \<open>Parser::get_int32\<close>. The four bytes are promoted to \<open>int\<close>, shifted and or-ed
  (at most \<open>255 << 21\<close>, no overflow), the result becomes the \<open>uint32_t\<close>
  \<open>unextended\<close>; \<open>0x80 << 21\<close> is subtracted in \<open>uint32_t\<close> and the result
  returned as \<open>int32_t\<close>.
\<close>

definition get_int32 :: "uint8 list \<Rightarrow> int \<Rightarrow> error + int" where
  "get_int32 register_data index =
     and_then (get register_data index) (\<lambda>b0.
     and_then (get register_data (index + 1)) (\<lambda>b1.
     and_then (get register_data (index + 2)) (\<lambda>b2.
     and_then (get register_data (index + 3)) (\<lambda>b3.
       let unextended = to_uint32 (uint b0 OR push_bit 7 (uint b1) OR
                                   push_bit 14 (uint b2) OR push_bit 21 (uint b3))
       in if 0x8000000 \<le> unextended
          then Inr (to_int32 (to_uint32 (unextended - push_bit 21 0x80)))
          else Inr (to_int32 unextended)))))"

section \<open>Turret::Impl\<close>

definition StartTimer :: "Parameters \<Rightarrow> effect list" where
  "StartTimer p = [TimerStart (period_s p)]"

definition Emit :: "ptime \<Rightarrow> TurretData \<Rightarrow> TurretData \<times> effect list" where
  "Emit now d = (let d' = d\<lparr>timestamp := now\<rparr> in (d', [TurretDataSignal d']))"

definition HandleWrite :: "ErrorCode \<Rightarrow> error + unit" where
  "HandleWrite ec = FailIf ec"

definition u8 :: "int \<Rightarrow> uint8" where
  "u8 val = word_of_int val"

text \<open>\<open>MakeCommand\<close>: pitch, then yaw, each as four groups of seven bits.\<close>

definition MakeCommand :: "Imu \<Rightarrow> error + uint8 list" where
  "MakeCommand command =
     and_then (static_cast_int (dmul (y_deg command) 1000)) (\<lambda>pitch_command.
     and_then (static_cast_int (dmul (x_deg command) 1000)) (\<lambda>yaw_command.
       Inr [u8 (pitch_command AND 0x7f),
            u8 (drop_bit 7 pitch_command AND 0x7f),
            u8 (drop_bit 14 pitch_command AND 0x7f),
            u8 (drop_bit 21 pitch_command AND 0x7f),
            u8 (yaw_command AND 0x7f),
            u8 (drop_bit 7 yaw_command AND 0x7f),
            u8 (drop_bit 14 yaw_command AND 0x7f),
            u8 (drop_bit 21 yaw_command AND 0x7f)]))"

text \<open>\<open>SendImuCommand\<close>: the command goes to \<open>PitchCommand().position\<close>, 0x50.\<close>

definition SendImuCommand :: "Parameters \<Rightarrow> Imu \<Rightarrow> error + effect list" where
  "SendImuCommand p command =
     and_then (MakeCommand command) (\<lambda>data.
       Inr [MemWrite (gimbal_address p) 0x50 data])"

text \<open>
  \<open>DoPoll\<close>. The last read starts at \<open>ImuPitch().position\<close>, 0x58, and is
  \<open>4 + 4 + 2\<close> bytes long.
\<close>

definition DoPoll :: "Parameters \<Rightarrow> TurretData \<Rightarrow> error + TurretData \<times> effect list" where
  "DoPoll p d =
     (let ask = (if imu_command d = None
                 then [MemRead (gimbal_address p) 0x50 8 ToHandleCommand] else []);
          current = [MemRead (gimbal_address p) 0x58 (4 + 4 + 2) ToHandleCurrent]
      in case imu_command d of
           None \<Rightarrow> Inr (d, ask @ current)
         | Some c \<Rightarrow>
             if x_deg_s (data_rate d) \<noteq> 0 \<or> y_deg_s (data_rate d) \<noteq> 0
             then
               let next1 = c\<lparr>x_deg := dadd (x_deg c) (dmul (x_deg_s (data_rate d)) (period_s p))\<rparr>;
                   next2 = next1\<lparr>y_deg := dadd (y_deg next1) (dmul (y_deg_s (data_rate d)) (period_s p))\<rparr>;
                   next = next2\<lparr>y_deg := std_max (min_y_deg p) (std_min (max_y_deg p) (y_deg next2))\<rparr>
               in and_then (SendImuCommand p next) (\<lambda>sent.
                    Inr (d\<lparr>imu_command := Some next\<rparr>, ask @ sent @ current))
             else Inr (d, ask @ current))"

definition HandleTimer :: "Parameters \<Rightarrow> TurretData \<Rightarrow> ErrorCode \<Rightarrow> error + TurretData \<times> effect list" where
  "HandleTimer p d ec =
     (if ec = operation_aborted then Inr (d, [])
      else and_then (FailIf ec) (\<lambda>_.
           and_then (DoPoll p d) (\<lambda>(d', polled).
             Inr (d', StartTimer p @ polled))))"

definition HandleCommand :: "ptime \<Rightarrow> TurretData \<Rightarrow> ErrorCode \<Rightarrow> uint8 list \<Rightarrow> error + TurretData \<times> effect list" where
  "HandleCommand now d ec register_data =
     and_then (FailIf ec) (\<lambda>_.
     and_then (get_int32 register_data 0) (\<lambda>pitch.
     and_then (get_int32 register_data 4) (\<lambda>yaw.
       let command = \<lparr>x_deg = ddiv (of_int yaw) 1000, y_deg = ddiv (of_int pitch) 1000\<rparr>
       in Inr (Emit now (d\<lparr>imu_command := Some command\<rparr>)))))"

text \<open>
  The absolute yaw of \<open>HandleCurrent\<close> (the spec's \<open>decode_absolute14\<close>):
  \<open>absolute_int\<close> is a \<open>uint16_t\<close>, promoted to \<open>int\<close> for the subtraction.
\<close>

definition decode_absolute14 :: "uint8 \<Rightarrow> uint8 \<Rightarrow> double" where
  "decode_absolute14 lo hi =
     (let absolute_int = to_uint16 (uint lo OR push_bit 7 (uint hi))
      in ddiv (of_int (absolute_int - 0x3fff)) (dmul 0x7fff 360))"

definition HandleCurrent :: "Parameters \<Rightarrow> TurretData \<Rightarrow> ErrorCode \<Rightarrow> uint8 list \<Rightarrow> error + TurretData \<times> effect list" where
  "HandleCurrent p d ec register_data =
     and_then (FailIf ec) (\<lambda>_.
     and_then (get_int32 register_data 0) (\<lambda>pitch.
     and_then (get_int32 register_data 4) (\<lambda>yaw.
     and_then (get register_data 8) (\<lambda>lo.
     and_then (get register_data 9) (\<lambda>hi.
       let measured = \<lparr>x_deg = ddiv (of_int yaw) 1000, y_deg = ddiv (of_int pitch) 1000\<rparr>;
           seen = \<lparr>x_deg = decode_absolute14 lo hi, y_deg = y_deg measured\<rparr>
       in Inr (d\<lparr>data_imu := measured, data_absolute := seen\<rparr>,
               [MemRead (fire_control_address p) 81 2 ToHandleFireControl]))))))"

definition HandleFireControl :: "ptime \<Rightarrow> TurretData \<Rightarrow> ErrorCode \<Rightarrow> uint8 list \<Rightarrow> error + TurretData \<times> effect list" where
  "HandleFireControl now d ec register_data =
     and_then (FailIf ec) (\<lambda>_.
     and_then (get register_data 0) (\<lambda>fire.
     and_then (get register_data 1) (\<lambda>agitator.
       Inr (Emit now (d\<lparr>fire_enabled := (fire \<noteq> 0), agitator_enabled := (agitator \<noteq> 0)\<rparr>)))))"

section \<open>Turret::SetCommand\<close>

text \<open>
  The yaw of an absolute command (the spec's \<open>encode_absolute14\<close>):
  \<open>std::max(0, std::min(0x3fff, static_cast<int>(limited_yaw_deg / 0x3fff * 360.0 + 0x1fff)))\<close>.
\<close>

definition encode_absolute14 :: "double \<Rightarrow> error + int" where
  "encode_absolute14 limited_yaw_deg =
     and_then (static_cast_int (dadd (dmul (ddiv limited_yaw_deg 0x3fff) 360) 0x1fff)) (\<lambda>v.
       Inr (std_max 0 (std_min 0x3fff v)))"

text \<open>
  The registers written: \<open>PitchCommand\<close> (0x50, 4 bytes), \<open>AbsoluteYawCommand\<close>
  (0x68, 2 bytes), \<open>LedControl\<close> (0x35, 1 byte). \<open>now\<close> is the clock reading that
  stamps the log.
\<close>

definition SetCommand :: "Parameters \<Rightarrow> ptime \<Rightarrow> TurretData \<Rightarrow> TurretCommand \<Rightarrow> error + TurretData \<times> effect list" where
  "SetCommand p now d command =
     (let log = \<lparr>log_timestamp = now, log_command = command\<rparr>;
          logged = [TurretCommandSignal log];
          leds = push_bit 2 (if laser_on command then 1 else 0);
          laser = [RamWrite (fire_control_address p) 0x35 1 leds]
      in if sequence command = last_sequence d then Inr (d, logged)
         else case absolute command of
           Some a \<Rightarrow>
             let d' = d\<lparr>imu_command := None, data_rate := Rate0\<rparr>;
                 limited_pitch_deg = std_max (min_y_deg p) (std_min (max_y_deg p) (y_deg a))
             in and_then (static_cast_int (dmul limited_pitch_deg 1000)) (\<lambda>pitch_command.
                  let limited_yaw_deg = std_max (min_x_deg p) (std_min (max_x_deg p) (x_deg a))
                  in and_then (encode_absolute14 limited_yaw_deg) (\<lambda>yaw_command.
                       Inr (d', logged @
                                [RamWrite (gimbal_address p) 0x50 4 pitch_command,
                                 RamWrite (gimbal_address p) 0x68 2 yaw_command] @ laser)))
         | None \<Rightarrow>
            (case imu command of
               Some i \<Rightarrow>
                 let stored = i\<lparr>y_deg := std_max (min_y_deg p) (std_min (max_y_deg p) (y_deg i))\<rparr>;
                     d' = d\<lparr>imu_command := Some stored, data_rate := Rate0\<rparr>
                 in and_then (SendImuCommand p i) (\<lambda>sent.
                      Inr (d', logged @ sent @ laser))
             | None \<Rightarrow>
                (case rate command of
                   Some r \<Rightarrow> Inr (d\<lparr>data_rate := r\<rparr>, logged @ laser)
                 | None \<Rightarrow> Inr (d, logged @ laser))))"

section \<open>Runs of the turret\<close>

text \<open>
  The single-threaded run loop calls one member function at a time: a submitted command,
  the timer's completion, or the completion of a read or of a write, each with the clock
  reading it would take.
\<close>

datatype event =
    Submit ptime TurretCommand
  | TimerDone ErrorCode
  | CommandDone ptime ErrorCode "uint8 list"
  | CurrentDone ErrorCode "uint8 list"
  | FireControlDone ptime ErrorCode "uint8 list"
  | WriteDone ErrorCode

fun step :: "Parameters \<Rightarrow> TurretData \<Rightarrow> event \<Rightarrow> error + TurretData \<times> effect list" where
  "step p d (Submit now command) = SetCommand p now d command"
| "step p d (TimerDone ec) = HandleTimer p d ec"
| "step p d (CommandDone now ec register_data) = HandleCommand now d ec register_data"
| "step p d (CurrentDone ec register_data) = HandleCurrent p d ec register_data"
| "step p d (FireControlDone now ec register_data) = HandleFireControl now d ec register_data"
| "step p d (WriteDone ec) = and_then (HandleWrite ec) (\<lambda>_. Inr (d, []))"

fun run :: "Parameters \<Rightarrow> TurretData \<Rightarrow> event list \<Rightarrow> error + TurretData \<times> effect list" where
  "run p d [] = Inr (d, [])"
| "run p d (e # es) =
     and_then (step p d e) (\<lambda>(d', out).
     and_then (run p d' es) (\<lambda>(d'', out').
       Inr (d'', out @ out')))"

section \<open>Example configuration\<close>

text \<open>
  The parameters of the spec's end-to-end scenario: a period of 0.0025 s (the double
  nearest to it) and pitch limits of -30 and 30 degrees. The two addresses and the yaw
  limits are example values.
\<close>

definition scenario_parameters :: Parameters where
  "scenario_parameters =
     \<lparr>period_s = round_double (25 / 10000), gimbal_address = 98, fire_control_address = 99,
      min_x_deg = - 120, max_x_deg = 120, min_y_deg = - 30, max_y_deg = 30\<rparr>"

text \<open>
  Modelled from the spec: the state at startup, which turret.h initialises. The spec
  describes it as all default or zero: no command estimate, no rate, \<open>last_sequence\<close>
  zero.
\<close>

definition startup_data :: TurretData where
  "startup_data =
     \<lparr>timestamp = 0, imu_command = None, data_imu = \<lparr>x_deg = 0, y_deg = 0\<rparr>,
      data_absolute = \<lparr>x_deg = 0, y_deg = 0\<rparr>, fire_enabled = False,
      agitator_enabled = False, data_rate = Rate0, last_sequence = 0\<rparr>"

section \<open>The register codec\<close>

lemma uint8_bounds: "0 \<le> uint (b :: uint8)" "uint (b :: uint8) < 256"
  using uint_bounded [of b] by simp_all

lemma or4_bounds:
  fixes b0 b1 b2 b3 :: uint8
  defines "u \<equiv> uint b0 OR push_bit 7 (uint b1) OR push_bit 14 (uint b2) OR push_bit 21 (uint b3)"
  shows "0 \<le> u" and "u < 2 ^ 29"
proof -
  have small: "uint b0 < 2 ^ 29" "push_bit 7 (uint b1) < 2 ^ 29"
    "push_bit 14 (uint b2) < 2 ^ 29" "push_bit 21 (uint b3) < 2 ^ 29"
    using uint8_bounds(2) [of b0] uint8_bounds(2) [of b1]
      uint8_bounds(2) [of b2] uint8_bounds(2) [of b3]
    by (simp_all add: push_bit_eq_mult)
  show "0 \<le> u" by (simp add: u_def)
  show "u < 2 ^ 29" unfolding u_def
    by (intro OR_upper) (use small in simp_all)
qed

text \<open>What \<open>get_int32\<close> returns wherever the four bytes are there.\<close>

lemma get_int32_value:
  assumes "0 \<le> index" and "nat index + 3 < length register_data"
  shows "get_int32 register_data index =
     Inr (let u = uint (register_data ! nat index) OR
                  push_bit 7 (uint (register_data ! nat (index + 1))) OR
                  push_bit 14 (uint (register_data ! nat (index + 2))) OR
                  push_bit 21 (uint (register_data ! nat (index + 3)))
          in if u < 0x8000000 then u else u - 0x10000000)"
proof -
  define u where "u = uint (register_data ! nat index) OR
                  push_bit 7 (uint (register_data ! nat (index + 1))) OR
                  push_bit 14 (uint (register_data ! nat (index + 2))) OR
                  push_bit 21 (uint (register_data ! nat (index + 3)))"
  have range: "0 \<le> u" "u < 2 ^ 29"
    unfolding u_def by (rule or4_bounds)+
  have fits: "to_uint32 u = u"
    using range by (simp add: to_uint32_def take_bit_int_eq_self)
  have positive: "to_int32 u = u"
    using range by (simp add: to_int32_def signed_take_bit_int_eq_self)
  have negative: "to_int32 (to_uint32 (u - 0x10000000)) = u - 0x10000000" if "0x8000000 \<le> u"
    using range that
    by (simp add: to_int32_def to_uint32_def signed_take_bit_take_bit signed_take_bit_int_eq_self)
  have there: "nat (index + 1) < length register_data" "nat (index + 2) < length register_data"
    "nat (index + 3) < length register_data" "nat index < length register_data"
    using assms by auto
  have "get_int32 register_data index =
      (if 0x8000000 \<le> to_uint32 u
       then Inr (to_int32 (to_uint32 (to_uint32 u - push_bit 21 0x80)))
       else Inr (to_int32 (to_uint32 u)))"
    using assms(1) there by (simp add: get_int32_def get_def and_then_def u_def Let_def)
  also have "\<dots> = Inr (if u < 0x8000000 then u else u - 0x10000000)"
    using positive negative by (simp add: fits push_bit_eq_mult not_le)
  finally show ?thesis by (simp add: u_def Let_def)
qed

lemma uint_u8_and: "uint (u8 (v AND 0x7f)) = take_bit 7 v"
proof -
  have "v AND 0x7f = take_bit 7 v"
    by (simp add: take_bit_eq_mask mask_eq_exp_minus_1)
  then show ?thesis
    by (simp add: u8_def uint_word_of_int_eq)
qed

lemma join7:
  "take_bit 7 v OR push_bit 7 (take_bit 7 (drop_bit 7 v)) OR
     push_bit 14 (take_bit 7 (drop_bit 14 v)) OR push_bit 21 (take_bit 7 (drop_bit 21 v))
   = take_bit 28 (v :: int)"
proof (rule bit_eqI)
  fix n :: nat
  consider "n < 7" | "7 \<le> n" "n < 14" | "14 \<le> n" "n < 21" | "21 \<le> n" "n < 28" | "28 \<le> n"
    by linarith
  then show "bit (take_bit 7 v OR push_bit 7 (take_bit 7 (drop_bit 7 v)) OR
      push_bit 14 (take_bit 7 (drop_bit 14 v)) OR push_bit 21 (take_bit 7 (drop_bit 21 v))) n
    \<longleftrightarrow> bit (take_bit 28 v) n"
    by cases (auto simp add: bit_simps)
qed

lemma sign28:
  assumes "- (2 ^ 27) \<le> v" and "v < 2 ^ 27"
  shows "(let u = take_bit 28 v in if u < 0x8000000 then u else u - 0x10000000) = (v :: int)"
proof (cases "0 \<le> v")
  case True
  then have "take_bit 28 v = v"
    using assms by (simp add: take_bit_int_eq_self)
  then show ?thesis using assms by simp
next
  case False
  have "take_bit 28 v = take_bit 28 (v + 2 ^ 28)"
    by (simp add: take_bit_eq_mod)
  also have "\<dots> = v + 2 ^ 28"
    using assms False by (simp add: take_bit_int_eq_self)
  finally show ?thesis using assms False by simp
qed

text \<open>The four bytes that \<open>MakeCommand\<close> writes for one integer, read back.\<close>

lemma get_int32_of_groups:
  assumes "- (2 ^ 27) \<le> v" and "v < 2 ^ 27"
    and "0 \<le> index" and "nat index + 3 < length register_data"
    and "register_data ! nat index = u8 (v AND 0x7f)"
    and "register_data ! nat (index + 1) = u8 (drop_bit 7 v AND 0x7f)"
    and "register_data ! nat (index + 2) = u8 (drop_bit 14 v AND 0x7f)"
    and "register_data ! nat (index + 3) = u8 (drop_bit 21 v AND 0x7f)"
  shows "get_int32 register_data index = Inr v"
  using sign28 [OF assms(1,2)]
  by (simp add: get_int32_value [OF assms(3,4)] assms(5-8) uint_u8_and join7)

section \<open>Bounds on rounding to binary64\<close>

lemma pow2_pos: "0 < pow2 e"
  by (simp add: pow2_def)

lemma pow2_powi: "pow2 e = 2 powi e"
  by (simp add: pow2_def power_int_def inverse_eq_divide power_one_over)

lemma pow2_mono: "a \<le> b \<Longrightarrow> pow2 a \<le> pow2 b"
  by (simp add: pow2_powi power_int_increasing)

lemma pow2_diff: "pow2 a / pow2 b = pow2 (a - b)"
  by (simp add: pow2_powi power_int_diff)

lemma pow2_nat: "0 \<le> e \<Longrightarrow> pow2 e = of_int (2 ^ nat e)"
  by (simp add: pow2_def)

lemma round_even_bounds: "\<lfloor>z\<rfloor> \<le> round_even z" "round_even z \<le> \<lceil>z\<rceil>"
proof -
  show "\<lfloor>z\<rfloor> \<le> round_even z"
    by (simp add: round_even_def Let_def)
  have "\<lfloor>z\<rfloor> + 1 \<le> \<lceil>z\<rceil>" if "z \<noteq> of_int \<lfloor>z\<rfloor>"
    using that by (metis ceiling_altdef add.commute order_refl)
  moreover have "\<lfloor>z\<rfloor> \<le> \<lceil>z\<rceil>"
    by (simp add: floor_le_ceiling)
  ultimately show "round_even z \<le> \<lceil>z\<rceil>"
    by (auto simp add: round_even_def Let_def)
qed

lemma binade_le: 
  assumes "q \<noteq> 0"
  shows "pow2 (binade q) \<le> \<bar>q\<bar>"
proof (cases "1 \<le> \<bar>q\<bar>")
  case True
  then have pos: "0 < \<lfloor>\<bar>q\<bar>\<rfloor>" by linarith
  have one: "1 \<le> bitlen \<lfloor>\<bar>q\<bar>\<rfloor>"
    using pos bitlen_eq_zero_iff [of "\<lfloor>\<bar>q\<bar>\<rfloor>"] bitlen_nonneg [of "\<lfloor>\<bar>q\<bar>\<rfloor>"] by linarith
  have "(2 :: int) ^ nat (bitlen \<lfloor>\<bar>q\<bar>\<rfloor> - 1) \<le> \<lfloor>\<bar>q\<bar>\<rfloor>"
    using bitlen_bounds [OF pos] by simp
  then have "(of_int (2 ^ nat (bitlen \<lfloor>\<bar>q\<bar>\<rfloor> - 1)) :: rat) \<le> of_int \<lfloor>\<bar>q\<bar>\<rfloor>"
    by (rule of_int_le_iff [THEN iffD2])
  also have "\<dots> \<le> \<bar>q\<bar>" by simp
  finally show ?thesis
    using True one by (simp add: binade_def pow2_def)
next
  case False
  define m where "m = \<lceil>1 / \<bar>q\<bar>\<rceil>"
  have small: "0 < \<bar>q\<bar>" "\<bar>q\<bar> < 1" using assms False by simp_all
  then have "1 < 1 / \<bar>q\<bar>" by simp
  then have m2: "2 \<le> m" unfolding m_def by linarith
  have "m - 1 < 2 ^ nat (bitlen (m - 1))"
    using bitlen_bounds [of "m - 1"] m2 by simp
  then have "m \<le> 2 ^ nat (bitlen (m - 1))" by simp
  then have "(of_int m :: rat) \<le> of_int (2 ^ nat (bitlen (m - 1)))"
    by (rule of_int_le_iff [THEN iffD2])
  then have "(of_int m :: rat) \<le> 2 ^ nat (bitlen (m - 1))"
    by simp
  moreover have "1 / \<bar>q\<bar> \<le> of_int m" unfolding m_def by simp
  ultimately have "1 / \<bar>q\<bar> \<le> 2 ^ nat (bitlen (m - 1))" by linarith
  then have "1 / 2 ^ nat (bitlen (m - 1)) \<le> \<bar>q\<bar>"
    using small(1) by (simp add: field_simps)
  moreover have "0 \<le> bitlen (m - 1)" by (rule bitlen_nonneg)
  ultimately show ?thesis
    using False by (auto simp add: binade_def pow2_def m_def)
qed

lemma pow2_strict_mono: "a < b \<Longrightarrow> pow2 a < pow2 b"
  by (simp add: pow2_powi power_int_strict_increasing)

lemma round_double_nonpos:
  assumes "q \<le> 0"
  shows "round_double q \<le> 0"
proof (cases "q = 0")
  case True
  then show ?thesis by (simp add: round_double_def)
next
  case False
  define e where "e = max (binade q - 52) (- 1074)"
  have "q / pow2 e \<le> 0"
    using assms pow2_pos [of e] by (simp add: divide_le_0_iff)
  then have "\<lceil>q / pow2 e\<rceil> \<le> 0"
    by (simp add: ceiling_le_zero)
  then have "round_even (q / pow2 e) \<le> 0"
    using round_even_bounds(2) [of "q / pow2 e"] by linarith
  then have "of_int (round_even (q / pow2 e)) * pow2 e \<le> 0"
    using pow2_pos [of e] by (simp add: mult_le_0_iff)
  then show ?thesis
    using False by (simp add: round_double_def e_def Let_def)
qed

lemma round_double_ge_neg_pow2:
  assumes "- pow2 k \<le> q" and "q \<le> 0" and "- 1074 \<le> k"
  shows "- pow2 k \<le> round_double q"
proof (cases "q = 0")
  case True
  then show ?thesis using pow2_pos [of k] by (simp add: round_double_def)
next
  case False
  define e where "e = max (binade q - 52) (- 1074)"
  have "pow2 (binade q) \<le> pow2 k"
    using binade_le [OF False] assms(1,2) by linarith
  then have "binade q \<le> k"
    using pow2_strict_mono [of k "binade q"] by (cases "binade q \<le> k") auto
  then have ek: "e \<le> k"
    using assms(3) by (simp add: e_def)
  have "(- pow2 k) / pow2 e \<le> q / pow2 e"
    using assms(1) pow2_pos [of e] by (intro divide_right_mono) simp_all
  moreover have "(- pow2 k) / pow2 e = of_int (- (2 ^ nat (k - e)))"
    using pow2_diff [of k e] pow2_nat [of "k - e"] ek by simp
  ultimately have "of_int (- (2 ^ nat (k - e))) \<le> q / pow2 e"
    by simp
  then have "- (2 ^ nat (k - e)) \<le> \<lfloor>q / pow2 e\<rfloor>"
    by (simp only: le_floor_iff)
  then have "- (2 ^ nat (k - e)) \<le> round_even (q / pow2 e)"
    using round_even_bounds(1) [of "q / pow2 e"] by linarith
  then have "(of_int (- (2 ^ nat (k - e))) :: rat) \<le> of_int (round_even (q / pow2 e))"
    by (rule of_int_le_iff [THEN iffD2])
  then have "of_int (- (2 ^ nat (k - e))) * pow2 e \<le> of_int (round_even (q / pow2 e)) * pow2 e"
    using pow2_pos [of e] by (simp only: mult_le_cancel_right_pos)
  moreover have "of_int (- (2 ^ nat (k - e))) * pow2 e = - pow2 k"
  proof -
    have "pow2 (k - e) * pow2 e = pow2 k"
      using pow2_diff [of k e] pow2_pos [of e] by (simp add: field_simps)
    then show ?thesis
      using pow2_nat [of "k - e"] ek by simp
  qed
  ultimately show ?thesis
    using False by (simp add: round_double_def e_def Let_def)
qed

lemma bitlen_8190: "bitlen 8190 = 13" "bitlen 8191 = 13"
  by code_simp+

lemma round_double_near_8191:
  assumes "8190 \<le> q" and "q \<le> 8191"
  shows "8190 \<le> round_double q" and "round_double q \<le> 8191"
proof -
  have "8190 \<le> \<lfloor>q\<rfloor>"
    using assms(1) by (simp add: le_floor_iff)
  moreover have "\<lfloor>q\<rfloor> \<le> 8191"
    using assms(2) by (simp add: floor_le_iff)
  ultimately have "\<lfloor>q\<rfloor> = 8190 \<or> \<lfloor>q\<rfloor> = 8191"
    by linarith
  then have b: "binade q = 12"
    using assms bitlen_8190 by (auto simp add: binade_def abs_if)
  have e: "pow2 (- 40) = 1 / 2 ^ 40"
    by (simp add: pow2_def)
  have rd: "round_double q = of_int (round_even (q * 2 ^ 40)) / 2 ^ 40"
    using assms b by (simp add: round_double_def e)
  have "(of_int (8190 * 2 ^ 40) :: rat) \<le> q * 2 ^ 40"
    using assms(1) by simp
  then have "8190 * 2 ^ 40 \<le> \<lfloor>q * 2 ^ 40\<rfloor>"
    by (simp only: le_floor_iff)
  then have lo: "8190 * 2 ^ 40 \<le> round_even (q * 2 ^ 40)"
    using round_even_bounds(1) [of "q * 2 ^ 40"] by linarith
  have "q * 2 ^ 40 \<le> (of_int (8191 * 2 ^ 40) :: rat)"
    using assms(2) by simp
  then have "\<lceil>q * 2 ^ 40\<rceil> \<le> 8191 * 2 ^ 40"
    by (simp only: ceiling_le_iff)
  then have hi: "round_even (q * 2 ^ 40) \<le> 8191 * 2 ^ 40"
    using round_even_bounds(2) [of "q * 2 ^ 40"] by linarith
  have "(of_int (8190 * 2 ^ 40) :: rat) \<le> of_int (round_even (q * 2 ^ 40))"
    using lo by (rule of_int_le_iff [THEN iffD2])
  then show "8190 \<le> round_double q"
    by (simp add: rd field_simps)
  have "(of_int (round_even (q * 2 ^ 40)) :: rat) \<le> of_int (8191 * 2 ^ 40)"
    using hi by (rule of_int_le_iff [THEN iffD2])
  then show "round_double q \<le> 8191"
    by (simp add: rd field_simps)
qed

lemma round_even_error: "\<bar>of_int (round_even z) - z\<bar> \<le> 1 / 2"
proof -
  define r where "r = z - of_int \<lfloor>z\<rfloor>"
  have r: "0 \<le> r" "r < 1"
    unfolding r_def by linarith+
  have down: "of_int \<lfloor>z\<rfloor> - z = - r" and up: "of_int (\<lfloor>z\<rfloor> + 1) - z = 1 - r"
    by (simp_all add: r_def)
  consider "r < 1 / 2" | "1 / 2 < r" | "r = 1 / 2"
    by linarith
  then show ?thesis
  proof cases
    case 1
    then have "round_even z = \<lfloor>z\<rfloor>"
      by (simp add: round_even_def Let_def r_def)
    then show ?thesis using down r 1 by simp
  next
    case 2
    then have "round_even z = \<lfloor>z\<rfloor> + 1"
      by (simp add: round_even_def Let_def r_def)
    then show ?thesis using up r 2 by (simp only: abs_if) simp
  next
    case 3
    then have "round_even z = \<lfloor>z\<rfloor> \<or> round_even z = \<lfloor>z\<rfloor> + 1"
      by (simp add: round_even_def Let_def r_def)
    then show ?thesis
    proof
      assume "round_even z = \<lfloor>z\<rfloor>"
      then show ?thesis using down 3 by simp
    next
      assume "round_even z = \<lfloor>z\<rfloor> + 1"
      then show ?thesis using up 3 by (simp only: abs_if) simp
    qed
  qed
qed

lemma round_double_error:
  assumes "\<bar>q\<bar> \<le> pow2 k" and "- 1022 \<le> k"
  shows "\<bar>round_double q - q\<bar> \<le> pow2 (k - 53)"
proof (cases "q = 0")
  case True
  then show ?thesis using pow2_pos [of "k - 53"] by (simp add: round_double_def)
next
  case False
  define e where "e = max (binade q - 52) (- 1074)"
  define z where "z = q / pow2 e"
  have "pow2 (binade q) \<le> pow2 k"
    using binade_le [OF False] assms(1) by linarith
  then have "binade q \<le> k"
    using pow2_strict_mono [of k "binade q"] by (cases "binade q \<le> k") auto
  then have "e \<le> k - 52"
    using assms(2) by (simp add: e_def)
  then have small: "pow2 e \<le> pow2 (k - 52)"
    by (rule pow2_mono)
  have half: "pow2 (k - 52) / 2 = pow2 (k - 53)"
    using pow2_diff [of "k - 52" 1] by (simp add: pow2_def)
  have q: "q = z * pow2 e"
    using pow2_pos [of e] by (simp add: z_def)
  have "round_double q - q = (of_int (round_even z) - z) * pow2 e"
    using False by (simp add: round_double_def e_def [symmetric] z_def [symmetric] Let_def q [symmetric] algebra_simps)
  then have "\<bar>round_double q - q\<bar> = \<bar>of_int (round_even z) - z\<bar> * pow2 e"
    using pow2_pos [of e] by (simp add: abs_mult)
  also have "\<dots> \<le> (1 / 2) * pow2 e"
    using round_even_error [of z] pow2_pos [of e] by (intro mult_right_mono) simp_all
  also have "\<dots> \<le> pow2 (k - 53)"
    using small half by simp
  finally show ?thesis .
qed

section \<open>Clamping\<close>

lemma std_clamp_cases:
  fixes lo hi v :: "'a::linorder"
  assumes "lo \<le> hi"
  shows "std_max lo (std_min hi v) = (if hi < v then hi else if v < lo then lo else v)"
  using assms by (auto simp add: std_max_def std_min_def)

lemma std_clamp_range:
  fixes lo hi v :: "'a::linorder"
  assumes "lo \<le> hi"
  shows "lo \<le> std_max lo (std_min hi v)" and "std_max lo (std_min hi v) \<le> hi"
  using assms by (auto simp add: std_max_def std_min_def)

lemma Imu_update_both [simp]:
  "(c :: Imu)\<lparr>x_deg := a, y_deg := b\<rparr> = \<lparr>x_deg = a, y_deg = b\<rparr>"
  by (cases c) simp

section \<open>Where a call can fail\<close>

lemma static_cast_int_error: "static_cast_int x = Inl e \<Longrightarrow> e = Undefined"
  by (simp add: static_cast_int_def Let_def split: if_splits)

lemma MakeCommand_error: "MakeCommand c = Inl e \<Longrightarrow> e = Undefined"
  by (auto simp add: MakeCommand_def and_then_def split: sum.splits dest: static_cast_int_error)

lemma encode_absolute14_error: "encode_absolute14 x = Inl e \<Longrightarrow> e = Undefined"
  by (auto simp add: encode_absolute14_def and_then_def split: sum.splits
      dest: static_cast_int_error)

section \<open>The poll tick\<close>

lemma DoPoll_rate:
  assumes "imu_command d = Some c"
    and "x_deg_s (data_rate d) \<noteq> 0 \<or> y_deg_s (data_rate d) \<noteq> 0"
    and "next = \<lparr>x_deg = dadd (x_deg c) (dmul (x_deg_s (data_rate d)) (period_s p)),
                 y_deg = std_max (min_y_deg p) (std_min (max_y_deg p)
                           (dadd (y_deg c) (dmul (y_deg_s (data_rate d)) (period_s p))))\<rparr>"
    and "MakeCommand next = Inr data"
  shows "DoPoll p d = Inr (d\<lparr>imu_command := Some next\<rparr>,
           [MemWrite (gimbal_address p) 0x50 data,
            MemRead (gimbal_address p) 0x58 10 ToHandleCurrent])"
  using assms by (simp add: DoPoll_def SendImuCommand_def and_then_def Let_def)

section \<open>Submitted commands\<close>

lemma SetCommand_absolute:
  assumes "sequence command \<noteq> last_sequence d"
    and "absolute command = Some a"
    and "static_cast_int (dmul (std_max (min_y_deg p) (std_min (max_y_deg p) (y_deg a))) 1000)
           = Inr pitch_command"
    and "encode_absolute14 (std_max (min_x_deg p) (std_min (max_x_deg p) (x_deg a)))
           = Inr yaw_command"
  shows "SetCommand p now d command =
     Inr (d\<lparr>imu_command := None, data_rate := Rate0\<rparr>,
          [TurretCommandSignal \<lparr>log_timestamp = now, log_command = command\<rparr>,
           RamWrite (gimbal_address p) 0x50 4 pitch_command,
           RamWrite (gimbal_address p) 0x68 2 yaw_command,
           RamWrite (fire_control_address p) 0x35 1 (if laser_on command then 4 else 0)])"
  using assms by (simp add: SetCommand_def and_then_def Let_def)

lemma SetCommand_imu:
  assumes "sequence command \<noteq> last_sequence d"
    and "absolute command = None" and "imu command = Some i"
    and "MakeCommand i = Inr data"
  shows "SetCommand p now d command =
     Inr (d\<lparr>imu_command := Some \<lparr>x_deg = x_deg i,
                 y_deg = std_max (min_y_deg p) (std_min (max_y_deg p) (y_deg i))\<rparr>,
            data_rate := Rate0\<rparr>,
          [TurretCommandSignal \<lparr>log_timestamp = now, log_command = command\<rparr>,
           MemWrite (gimbal_address p) 0x50 data,
           RamWrite (fire_control_address p) 0x35 1 (if laser_on command then 4 else 0)])"
  using assms by (cases i) (simp add: SetCommand_def SendImuCommand_def and_then_def Let_def)

lemma SetCommand_no_position:
  assumes "sequence command \<noteq> last_sequence d"
    and "absolute command = None" and "imu command = None"
  shows "SetCommand p now d command =
     Inr (case rate command of Some r \<Rightarrow> d\<lparr>data_rate := r\<rparr> | None \<Rightarrow> d,
          [TurretCommandSignal \<lparr>log_timestamp = now, log_command = command\<rparr>,
           RamWrite (fire_control_address p) 0x35 1 (if laser_on command then 4 else 0)])"
  using assms by (cases "rate command") (simp_all add: SetCommand_def Let_def)

lemma SetCommand_accepted_laser:
  assumes "sequence command \<noteq> last_sequence d"
  shows "SetCommand p now d command = Inl Undefined \<or>
     (\<exists>d' out. SetCommand p now d command =
        Inr (d', out @ [RamWrite (fire_control_address p) 0x35 1
                          (if laser_on command then 4 else 0)]))"
proof (cases "absolute command")
  case (Some a)
  show ?thesis
  proof (cases "static_cast_int
      (dmul (std_max (min_y_deg p) (std_min (max_y_deg p) (y_deg a))) 1000)")
    case (Inl e)
    then show ?thesis
      using assms Some static_cast_int_error [OF Inl]
      by (simp add: SetCommand_def and_then_def Let_def)
  next
    case pitch: (Inr pitch_command)
    show ?thesis
    proof (cases "encode_absolute14 (std_max (min_x_deg p) (std_min (max_x_deg p) (x_deg a)))")
      case (Inl e)
      then show ?thesis
        using assms Some pitch encode_absolute14_error [OF Inl]
        by (simp add: SetCommand_def and_then_def Let_def)
    next
      case (Inr yaw_command)
      have "SetCommand p now d command =
         Inr (d\<lparr>imu_command := None, data_rate := Rate0\<rparr>,
          [TurretCommandSignal \<lparr>log_timestamp = now, log_command = command\<rparr>,
           RamWrite (gimbal_address p) 0x50 4 pitch_command,
           RamWrite (gimbal_address p) 0x68 2 yaw_command] @
          [RamWrite (fire_control_address p) 0x35 1 (if laser_on command then 4 else 0)])"
        using SetCommand_absolute [OF assms Some pitch Inr] by simp
      then show ?thesis by blast
    qed
  qed
next
  case None
  show ?thesis
  proof (cases "imu command")
    case (Some i)
    show ?thesis
    proof (cases "MakeCommand i")
      case (Inl e)
      then show ?thesis
        using assms None Some MakeCommand_error [OF Inl]
        by (simp add: SetCommand_def SendImuCommand_def and_then_def Let_def)
    next
      case (Inr data)
      have "SetCommand p now d command =
         Inr (d\<lparr>imu_command := Some \<lparr>x_deg = x_deg i,
                 y_deg = std_max (min_y_deg p) (std_min (max_y_deg p) (y_deg i))\<rparr>,
                data_rate := Rate0\<rparr>,
          [TurretCommandSignal \<lparr>log_timestamp = now, log_command = command\<rparr>,
           MemWrite (gimbal_address p) 0x50 data] @
          [RamWrite (fire_control_address p) 0x35 1 (if laser_on command then 4 else 0)])"
        using SetCommand_imu [OF assms None Some Inr] by simp
      then show ?thesis by blast
    qed
  next
    case no_imu: None
    have "SetCommand p now d command =
         Inr (case rate command of Some r \<Rightarrow> d\<lparr>data_rate := r\<rparr> | None \<Rightarrow> d,
          [TurretCommandSignal \<lparr>log_timestamp = now, log_command = command\<rparr>] @
          [RamWrite (fire_control_address p) 0x35 1 (if laser_on command then 4 else 0)])"
      using SetCommand_no_position [OF assms None no_imu] by simp
    then show ?thesis by blast
  qed
qed

lemma SetCommand_discards_iff:
  "(SetCommand p now d command =
      Inr (d, [TurretCommandSignal \<lparr>log_timestamp = now, log_command = command\<rparr>]))
   = (sequence command = last_sequence d)"
  by (auto simp add: SetCommand_def and_then_def Let_def split: option.splits sum.splits)

section \<open>last_sequence\<close>

lemma SetCommand_last_sequence:
  assumes "SetCommand p now d command = Inr (d', out)"
  shows "last_sequence d' = last_sequence d"
  using assms
  by (auto simp add: SetCommand_def and_then_def Let_def SendImuCommand_def
      split: if_splits option.splits sum.splits)

lemma DoPoll_last_sequence:
  assumes "DoPoll p d = Inr (d', out)"
  shows "last_sequence d' = last_sequence d"
  using assms
  by (auto simp add: DoPoll_def and_then_def Let_def split: if_splits option.splits sum.splits)

lemma HandleTimer_last_sequence:
  assumes "HandleTimer p d ec = Inr (d', out)"
  shows "last_sequence d' = last_sequence d"
  using assms
  by (auto simp add: HandleTimer_def and_then_def split: if_splits sum.splits
      dest: DoPoll_last_sequence)

lemma HandleCommand_last_sequence:
  assumes "HandleCommand now d ec register_data = Inr (d', out)"
  shows "last_sequence d' = last_sequence d"
  using assms
  by (auto simp add: HandleCommand_def Emit_def and_then_def Let_def split: sum.splits)

lemma HandleCurrent_last_sequence:
  assumes "HandleCurrent p d ec register_data = Inr (d', out)"
  shows "last_sequence d' = last_sequence d"
  using assms
  by (auto simp add: HandleCurrent_def and_then_def Let_def split: sum.splits)

lemma HandleFireControl_last_sequence:
  assumes "HandleFireControl now d ec register_data = Inr (d', out)"
  shows "last_sequence d' = last_sequence d"
  using assms
  by (auto simp add: HandleFireControl_def Emit_def and_then_def Let_def split: sum.splits)

lemma step_last_sequence:
  assumes "step p d e = Inr (d', out)"
  shows "last_sequence d' = last_sequence d"
proof (cases e)
  case (Submit now command)
  then show ?thesis using assms by (simp add: SetCommand_last_sequence)
next
  case (TimerDone ec)
  then show ?thesis using assms by (simp add: HandleTimer_last_sequence)
next
  case (CommandDone now ec register_data)
  then show ?thesis using assms by (simp add: HandleCommand_last_sequence)
next
  case (CurrentDone ec register_data)
  then show ?thesis using assms by (simp add: HandleCurrent_last_sequence)
next
  case (FireControlDone now ec register_data)
  then show ?thesis using assms by (simp add: HandleFireControl_last_sequence)
next
  case (WriteDone ec)
  then show ?thesis using assms by (auto simp add: and_then_def split: sum.splits)
qed

lemma run_last_sequence:
  assumes "run p d es = Inr (d', out)"
  shows "last_sequence d' = last_sequence d"
  using assms
proof (induction es arbitrary: d d' out)
  case Nil
  then show ?case by simp
next
  case (Cons e es)
  from Cons.prems obtain d1 out1 d2 out2 where
    first: "step p d e = Inr (d1, out1)" and rest: "run p d1 es = Inr (d2, out2)" and "d' = d2"
    by (auto simp add: and_then_def split: sum.splits)
  then show ?case
    using Cons.IH [OF rest] step_last_sequence [OF first] by simp
qed

lemma encode_absolute14_range:
  assumes "encode_absolute14 x = Inr n"
  shows "0 \<le> n" and "n \<le> 0x3fff"
  using assms
  by (auto simp add: encode_absolute14_def and_then_def std_max_def std_min_def
      split: sum.splits if_splits)

section \<open>The absolute yaw, decoded and encoded again\<close>

lemma raw14_bounds:
  fixes lo hi :: uint8
  assumes "lo < 0x80" and "hi < 0x80"
  shows "0 \<le> to_uint16 (uint lo OR push_bit 7 (uint hi))"
    and "to_uint16 (uint lo OR push_bit 7 (uint hi)) \<le> 0x3fff"
proof -
  define w where "w = uint lo OR push_bit 7 (uint hi)"
  have l: "uint lo < 128" and h: "uint hi < 128"
    using assms by (simp_all add: word_less_def)
  have below: "w < 2 ^ 14"
    unfolding w_def using l h by (intro OR_upper) (simp_all add: push_bit_eq_mult)
  have nonneg: "0 \<le> w"
    by (simp add: w_def)
  have "take_bit 16 w = w"
    using below nonneg by (intro take_bit_int_eq_self) simp_all
  then have "to_uint16 (uint lo OR push_bit 7 (uint hi)) = w"
    by (simp add: to_uint16_def w_def)
  then show "0 \<le> to_uint16 (uint lo OR push_bit 7 (uint hi))"
    and "to_uint16 (uint lo OR push_bit 7 (uint hi)) \<le> 0x3fff"
    using below nonneg by simp_all
qed

lemma scale_exact: "dmul 0x7fff 360 = 11796120"
  by code_simp

lemma decode_absolute14_bounds:
  assumes "lo < 0x80" and "hi < 0x80"
  shows "- pow2 (- 9) \<le> decode_absolute14 lo hi" and "decode_absolute14 lo hi \<le> 0"
proof -
  define v where "v = to_uint16 (uint lo OR push_bit 7 (uint hi))"
  have v: "0 \<le> v" "v \<le> 0x3fff"
    unfolding v_def using raw14_bounds [OF assms] by simp_all
  define q :: rat where "q = of_int (v - 0x3fff) / 11796120"
  have decoded: "decode_absolute14 lo hi = round_double q"
    by (simp add: decode_absolute14_def Let_def scale_exact ddiv_def q_def v_def)
  have "(of_int (v - 0x3fff) :: rat) \<le> 0" and "(- 16383 :: rat) \<le> of_int (v - 0x3fff)"
    using v by simp_all
  then have above: "q \<le> 0" and below: "- pow2 (- 9) \<le> q"
    by (simp_all add: q_def pow2_def field_simps)
  show "- pow2 (- 9) \<le> decode_absolute14 lo hi"
    unfolding decoded using below above by (intro round_double_ge_neg_pow2) simp_all
  show "decode_absolute14 lo hi \<le> 0"
    unfolding decoded using above by (rule round_double_nonpos)
qed

lemma encode_absolute14_small:
  assumes "- pow2 (- 9) \<le> x" and "x \<le> 0"
  shows "encode_absolute14 x = Inr 0x1ffe \<or> encode_absolute14 x = Inr 0x1fff"
proof -
  define x1 where "x1 = ddiv x 0x3fff"
  define x2 where "x2 = dmul x1 360"
  define x3 where "x3 = dadd x2 0x1fff"
  have small: "- (1 / 512) \<le> x"
    using assms(1) by (simp add: pow2_def)
  have "- pow2 (- 22) \<le> x / 0x3fff" and "x / 0x3fff \<le> 0"
    using small assms(2) by (simp_all add: pow2_def field_simps)
  then have x1: "- pow2 (- 22) \<le> x1" "x1 \<le> 0"
    unfolding x1_def ddiv_def
    by (simp_all add: round_double_ge_neg_pow2 round_double_nonpos)
  then have "- (1 / 2 ^ 22) \<le> x1"
    by (simp add: pow2_def)
  then have "- pow2 (- 13) \<le> x1 * 360" and "x1 * 360 \<le> 0"
    using x1(2) by (simp_all add: pow2_def field_simps mult_le_0_iff)
  then have x2: "- pow2 (- 13) \<le> x2" "x2 \<le> 0"
    unfolding x2_def dmul_def
    by (simp_all add: round_double_ge_neg_pow2 round_double_nonpos)
  then have "8190 \<le> x2 + 0x1fff" and "x2 + 0x1fff \<le> 8191"
    by (simp_all add: pow2_def)
  then have x3: "8190 \<le> x3" "x3 \<le> 8191"
    unfolding x3_def dadd_def by (simp_all add: round_double_near_8191)
  have "8190 \<le> \<lfloor>x3\<rfloor>"
    using x3(1) by (simp add: le_floor_iff)
  moreover have "\<lfloor>x3\<rfloor> \<le> 8191"
    using x3(2) by (simp add: floor_le_iff)
  ultimately have t: "\<lfloor>x3\<rfloor> = 8190 \<or> \<lfloor>x3\<rfloor> = 8191"
    by linarith
  have "static_cast_int x3 = Inr \<lfloor>x3\<rfloor>"
    using x3 t by (auto simp add: static_cast_int_def Let_def)
  then have encoded: "encode_absolute14 x = Inr (std_max 0 (std_min 0x3fff \<lfloor>x3\<rfloor>))"
    by (simp add: encode_absolute14_def and_then_def x3_def x2_def x1_def)
  from t show ?thesis
  proof
    assume "\<lfloor>x3\<rfloor> = 8190"
    then show ?thesis by (simp add: encoded std_max_def std_min_def)
  next
    assume "\<lfloor>x3\<rfloor> = 8191"
    then show ?thesis by (simp add: encoded std_max_def std_min_def)
  qed
qed

text \<open>Every 14-bit value, decoded and encoded again, comes out as 0x1ffe or 0x1fff.\<close>

lemma absolute14_reencoded:
  assumes "lo < 0x80" and "hi < 0x80"
  shows "encode_absolute14 (decode_absolute14 lo hi) = Inr 0x1ffe \<or>
         encode_absolute14 (decode_absolute14 lo hi) = Inr 0x1fff"
  using decode_absolute14_bounds [OF assms] by (rule encode_absolute14_small)

lemma decode_absolute14_value:
  "decode_absolute14 lo hi =
     round_double (of_int ((uint lo OR push_bit 7 (uint hi)) - 0x3fff) / (0x7fff * 360))"
proof -
  define w where "w = uint lo OR push_bit 7 (uint hi)"
  have "w < 2 ^ 16"
    unfolding w_def using uint8_bounds(2) [of lo] uint8_bounds(2) [of hi]
    by (intro OR_upper) (simp_all add: push_bit_eq_mult)
  moreover have "0 \<le> w"
    by (simp add: w_def)
  ultimately have "take_bit 16 w = w"
    by (intro take_bit_int_eq_self) simp_all
  then show ?thesis
    by (simp add: decode_absolute14_def to_uint16_def Let_def scale_exact ddiv_def w_def)
qed

lemma MakeCommand_read_back:
  assumes "static_cast_int (dmul (y_deg command) 1000) = Inr pitch_command"
    and "static_cast_int (dmul (x_deg command) 1000) = Inr yaw_command"
    and "- (2 ^ 27) \<le> pitch_command" and "pitch_command < 2 ^ 27"
    and "- (2 ^ 27) \<le> yaw_command" and "yaw_command < 2 ^ 27"
  shows "\<exists>data. MakeCommand command = Inr data \<and>
           get_int32 data 0 = Inr pitch_command \<and> get_int32 data 4 = Inr yaw_command"
proof -
  define data where "data =
     [u8 (pitch_command AND 0x7f), u8 (drop_bit 7 pitch_command AND 0x7f),
      u8 (drop_bit 14 pitch_command AND 0x7f), u8 (drop_bit 21 pitch_command AND 0x7f),
      u8 (yaw_command AND 0x7f), u8 (drop_bit 7 yaw_command AND 0x7f),
      u8 (drop_bit 14 yaw_command AND 0x7f), u8 (drop_bit 21 yaw_command AND 0x7f)]"
  have made: "MakeCommand command = Inr data"
    using assms(1,2) by (simp add: MakeCommand_def and_then_def data_def)
  have pitch: "get_int32 data 0 = Inr pitch_command"
    by (rule get_int32_of_groups [OF assms(3,4)]) (simp_all add: data_def)
  have yaw: "get_int32 data 4 = Inr yaw_command"
    by (rule get_int32_of_groups [OF assms(5,6)]) (simp_all add: data_def)
  from made pitch yaw show ?thesis by blast
qed

text \<open>
  What \<open>MakeCommand\<close> makes of \<open>v / 1000.0\<close>: the two roundings move the product
  by less than \<open>2^-24\<close>, so the truncation is \<open>v\<close> or the next integer towards zero.
\<close>

lemma encoded_near:
  fixes v :: int
  assumes "- (2 ^ 27) \<le> v" and "v < 2 ^ 27"
  shows "\<exists>t. static_cast_int (dmul (ddiv (of_int v) 1000) 1000) = Inr t \<and>
           (t = v \<or> 0 < v \<and> t = v - 1 \<or> v < 0 \<and> t = v + 1) \<and>
           - (2 ^ 27) \<le> t \<and> t < 2 ^ 27"
proof -
  define d1 where "d1 = ddiv (of_int v) 1000"
  define d2 where "d2 = dmul d1 1000"
  have p: "pow2 18 = 262144" "pow2 (18 - 53) = 1 / 34359738368"
    "pow2 28 = 268435456" "pow2 (28 - 53) = 1 / 33554432"
    by (simp_all add: pow2_def)
  have range: "(of_int v :: rat) \<le> 134217728" "- 134217728 \<le> (of_int v :: rat)"
    using assms by simp_all
  have "\<bar>(of_int v :: rat) / 1000\<bar> \<le> pow2 18"
    unfolding p abs_le_iff using range by linarith
  then have "\<bar>d1 - of_int v / 1000\<bar> \<le> pow2 (18 - 53)"
    unfolding d1_def ddiv_def by (intro round_double_error) simp_all
  then have e1: "d1 - of_int v / 1000 \<le> 1 / 34359738368"
    "- (d1 - of_int v / 1000) \<le> 1 / 34359738368"
    unfolding p abs_le_iff by simp_all
  have "\<bar>d1 * 1000\<bar> \<le> pow2 28"
    unfolding p abs_le_iff using e1 range by linarith
  then have "\<bar>d2 - d1 * 1000\<bar> \<le> pow2 (28 - 53)"
    unfolding d2_def dmul_def by (intro round_double_error) simp_all
  then have e2: "d2 - d1 * 1000 \<le> 1 / 33554432" "- (d2 - d1 * 1000) \<le> 1 / 33554432"
    unfolding p abs_le_iff by simp_all
  define t where "t = (if 0 \<le> d2 then \<lfloor>d2\<rfloor> else \<lceil>d2\<rceil>)"
  have lo: "of_int v - 1 < d2" and hi: "d2 < of_int v + 1"
    using e1 e2 by linarith+
  have fl: "v - 1 \<le> \<lfloor>d2\<rfloor>" "\<lfloor>d2\<rfloor> \<le> v"
    using lo hi by (simp_all add: le_floor_iff floor_le_iff)
  have ce: "v \<le> \<lceil>d2\<rceil>" "\<lceil>d2\<rceil> \<le> v + 1"
    using lo hi by (simp_all add: le_ceiling_iff ceiling_le_iff)
  have sign1: "0 \<le> v" if "0 \<le> d2"
  proof -
    have "(0 :: rat) < of_int (v + 1)"
      using that hi by simp
    then have "0 < v + 1"
      by (simp only: of_int_0_less_iff)
    then show ?thesis by simp
  qed
  have sign2: "v \<le> 0" if "d2 < 0"
  proof -
    have "(of_int (v - 1) :: rat) < 0"
      using that lo by simp
    then have "v - 1 < 0"
      by (simp only: of_int_less_0_iff)
    then show ?thesis by simp
  qed
  have bounds: "- 134217728 \<le> v" "v < 134217728"
    using assms by simp_all
  have close: "t = v \<or> 0 < v \<and> t = v - 1 \<or> v < 0 \<and> t = v + 1"
    and inside: "- 134217728 \<le> t" "t < 134217728"
  proof -
    show "t = v \<or> 0 < v \<and> t = v - 1 \<or> v < 0 \<and> t = v + 1"
    proof (cases "0 \<le> d2")
      case True
      then have "t = \<lfloor>d2\<rfloor>" by (simp add: t_def)
      moreover have "0 \<le> \<lfloor>d2\<rfloor>"
        using True by (simp only: zero_le_floor)
      ultimately show ?thesis using fl by linarith
    next
      case False
      then have "t = \<lceil>d2\<rceil>" by (simp add: t_def)
      moreover have "\<lceil>d2\<rceil> \<le> 0"
        using False by (simp add: ceiling_le_zero)
      ultimately show ?thesis using ce by linarith
    qed
    show "- 134217728 \<le> t"
    proof (cases "0 \<le> d2")
      case True
      then have "t = \<lfloor>d2\<rfloor>" by (simp add: t_def)
      then show ?thesis using fl sign1 [OF True] by linarith
    next
      case False
      then have "t = \<lceil>d2\<rceil>" by (simp add: t_def)
      then show ?thesis using ce bounds by linarith
    qed
    show "t < 134217728"
    proof (cases "0 \<le> d2")
      case True
      then have "t = \<lfloor>d2\<rfloor>" by (simp add: t_def)
      then show ?thesis using fl bounds by linarith
    next
      case False
      then have "d2 < 0" by simp
      from False have "t = \<lceil>d2\<rceil>" by (simp add: t_def)
      then show ?thesis using ce sign2 [OF \<open>d2 < 0\<close>] by linarith
    qed
  qed
  have "static_cast_int d2 = Inr t"
    using inside by (simp add: static_cast_int_def t_def [symmetric] Let_def)
  then show ?thesis
    using close inside by (simp add: d2_def d1_def)
qed

section \<open>The claims about the register codec\<close>

text \<open>
  C1, as amended. For any four bytes, \<open>get_int32\<close> returns
  \<open>u = b0 | b1<<7 | b2<<14 | b3<<21\<close> when \<open>u\<close> is below 0x8000000, and
  \<open>u - 0x10000000\<close> otherwise: the constant subtracted is \<open>0x80 << 21 = 2^28\<close>,
  which is what sign extension over 28 bits takes, not 0x8000000.
\<close>

theorem get_int32_sign_extension:
  "get_int32 [b0, b1, b2, b3] 0 =
     Inr (let u = uint b0 OR push_bit 7 (uint b1) OR push_bit 14 (uint b2) OR push_bit 21 (uint b3)
          in if u < 0x8000000 then u else u - 0x10000000)"
  using get_int32_value [of 0 "[b0, b1, b2, b3]"] by simp

text \<open>
  C1 as stated fails on the bytes 7f 7f 7f 7f: the unsigned value is 0xfffffff, at least
  0x8000000; the claim's result is 0xfffffff - 0x8000000 = 0x7ffffff, the code returns -1.
\<close>

theorem get_int32_sign_extension_counterexample:
  "0x8000000 \<le> (uint (0x7f :: uint8) OR push_bit 7 (uint (0x7f :: uint8)) OR
                    push_bit 14 (uint (0x7f :: uint8)) OR push_bit 21 (uint (0x7f :: uint8)))
   \<and> (uint (0x7f :: uint8) OR push_bit 7 (uint (0x7f :: uint8)) OR
        push_bit 14 (uint (0x7f :: uint8)) OR push_bit 21 (uint (0x7f :: uint8))) - 0x8000000
       = (0x7ffffff :: int)
   \<and> get_int32 [0x7f, 0x7f, 0x7f, 0x7f] 0 = Inr (- 1)"
  by code_simp

text \<open>
  C5, as amended. Whenever the two integers that \<open>MakeCommand\<close> obtains by
  truncating pitch and yaw times 1000.0 lie in \<open>[-2^27, 2^27 - 1]\<close>, the eight bytes it
  produces decode, by \<open>get_int32\<close> at offsets 0 and 4, to exactly these integers.
  For pitch \<open>v / 1000.0\<close> and yaw \<open>w / 1000.0\<close> with integers \<open>v\<close>,
  \<open>w\<close> in that range, the integer decoded for each is the integer itself or the
  next integer towards zero; it need not be the integer itself.
\<close>

theorem MakeCommand_get_int32_roundtrip:
  "(static_cast_int (dmul (y_deg command) 1000) = Inr pitch_command \<and>
    static_cast_int (dmul (x_deg command) 1000) = Inr yaw_command \<and>
    - (2 ^ 27) \<le> pitch_command \<and> pitch_command < 2 ^ 27 \<and>
    - (2 ^ 27) \<le> yaw_command \<and> yaw_command < 2 ^ 27
    \<longrightarrow>
      (\<exists>data. MakeCommand command = Inr data \<and>
         get_int32 data 0 = Inr pitch_command \<and> get_int32 data 4 = Inr yaw_command))
   \<and>
   (- (2 ^ 27) \<le> v \<and> v < 2 ^ 27 \<and> - (2 ^ 27) \<le> w \<and> w < 2 ^ 27
    \<longrightarrow>
      (\<exists>data pitch yaw.
         MakeCommand \<lparr>x_deg = ddiv (of_int w) 1000, y_deg = ddiv (of_int v) 1000\<rparr> = Inr data \<and>
         get_int32 data 0 = Inr pitch \<and> get_int32 data 4 = Inr yaw \<and>
         (pitch = v \<or> 0 < v \<and> pitch = v - 1 \<or> v < 0 \<and> pitch = v + 1) \<and>
         (yaw = w \<or> 0 < w \<and> yaw = w - 1 \<or> w < 0 \<and> yaw = w + 1)))"
proof (intro conjI impI)
  assume "static_cast_int (dmul (y_deg command) 1000) = Inr pitch_command \<and>
    static_cast_int (dmul (x_deg command) 1000) = Inr yaw_command \<and>
    - (2 ^ 27) \<le> pitch_command \<and> pitch_command < 2 ^ 27 \<and>
    - (2 ^ 27) \<le> yaw_command \<and> yaw_command < 2 ^ 27"
  then show "\<exists>data. MakeCommand command = Inr data \<and>
         get_int32 data 0 = Inr pitch_command \<and> get_int32 data 4 = Inr yaw_command"
    using MakeCommand_read_back [of command pitch_command yaw_command] by blast
next
  assume range: "- (2 ^ 27) \<le> v \<and> v < 2 ^ 27 \<and> - (2 ^ 27) \<le> w \<and> w < 2 ^ 27"
  let ?c = "\<lparr>x_deg = ddiv (of_int w) 1000, y_deg = ddiv (of_int v) 1000\<rparr>"
  from range obtain pitch where pitch:
    "static_cast_int (dmul (ddiv (of_int v) 1000) 1000) = Inr pitch"
    "pitch = v \<or> 0 < v \<and> pitch = v - 1 \<or> v < 0 \<and> pitch = v + 1"
    "- (2 ^ 27) \<le> pitch" "pitch < 2 ^ 27"
    using encoded_near [of v] by blast
  from range obtain yaw where yaw:
    "static_cast_int (dmul (ddiv (of_int w) 1000) 1000) = Inr yaw"
    "yaw = w \<or> 0 < w \<and> yaw = w - 1 \<or> w < 0 \<and> yaw = w + 1"
    "- (2 ^ 27) \<le> yaw" "yaw < 2 ^ 27"
    using encoded_near [of w] by blast
  have "\<exists>data. MakeCommand ?c = Inr data \<and>
           get_int32 data 0 = Inr pitch \<and> get_int32 data 4 = Inr yaw"
    using pitch(1,3,4) yaw(1,3,4) by (intro MakeCommand_read_back) simp_all
  then show "\<exists>data pitch yaw. MakeCommand ?c = Inr data \<and>
         get_int32 data 0 = Inr pitch \<and> get_int32 data 4 = Inr yaw \<and>
         (pitch = v \<or> 0 < v \<and> pitch = v - 1 \<or> v < 0 \<and> pitch = v + 1) \<and>
         (yaw = w \<or> 0 < w \<and> yaw = w - 1 \<or> w < 0 \<and> yaw = w + 1)"
    using pitch(2) yaw(2) by blast
qed

text \<open>
  C5, witness: pitch -2.0 and yaw 5.0 degrees become -2000 and 5000, and are read back;
  pitch \<open>4095 / 1000.0\<close> and yaw \<open>-4095 / 1000.0\<close> are read back as 4095 or
  4094 and as -4095 or -4094.
\<close>

theorem MakeCommand_get_int32_roundtrip_witness:
  "static_cast_int (dmul (y_deg \<lparr>x_deg = 5, y_deg = - 2\<rparr>) 1000) = Inr (- 2000) \<and>
   static_cast_int (dmul (x_deg \<lparr>x_deg = 5, y_deg = - 2\<rparr>) 1000) = Inr 5000 \<and>
   (\<exists>data. MakeCommand \<lparr>x_deg = 5, y_deg = - 2\<rparr> = Inr data \<and>
      get_int32 data 0 = Inr (- 2000) \<and> get_int32 data 4 = Inr 5000) \<and>
   (\<exists>data pitch yaw.
      MakeCommand \<lparr>x_deg = ddiv (- 4095) 1000, y_deg = ddiv 4095 1000\<rparr> = Inr data \<and>
      get_int32 data 0 = Inr pitch \<and> get_int32 data 4 = Inr yaw \<and>
      (pitch = 4095 \<or> pitch = 4094) \<and> (yaw = - 4095 \<or> yaw = - 4094))"
proof -
  note facts = MakeCommand_get_int32_roundtrip
    [of "\<lparr>x_deg = 5, y_deg = - 2\<rparr>" "- 2000" 5000 4095 "- 4095"]
  have pitch: "static_cast_int (dmul (y_deg \<lparr>x_deg = 5, y_deg = - 2\<rparr>) 1000) = Inr (- 2000)"
    by code_simp
  have yaw: "static_cast_int (dmul (x_deg \<lparr>x_deg = 5, y_deg = - 2\<rparr>) 1000) = Inr 5000"
    by code_simp
  have exact: "\<exists>data. MakeCommand \<lparr>x_deg = 5, y_deg = - 2\<rparr> = Inr data \<and>
      get_int32 data 0 = Inr (- 2000) \<and> get_int32 data 4 = Inr 5000"
    using facts [THEN conjunct1] pitch yaw by simp
  have near: "\<exists>data pitch yaw.
      MakeCommand \<lparr>x_deg = ddiv (- 4095) 1000, y_deg = ddiv 4095 1000\<rparr> = Inr data \<and>
      get_int32 data 0 = Inr pitch \<and> get_int32 data 4 = Inr yaw \<and>
      (pitch = 4095 \<or> pitch = 4094) \<and> (yaw = - 4095 \<or> yaw = - 4094)"
    using facts [THEN conjunct2] by simp
  show ?thesis
    using pitch yaw exact near by blast
qed

text \<open>
  C5 as stated fails at \<open>v = 4095\<close>: the double \<open>4095 / 1000.0\<close> times
  \<open>1000.0\<close> is just below 4095 and truncates to 4094, so the bytes encode 4094 and
  decode to 4094.
\<close>

theorem MakeCommand_get_int32_roundtrip_counterexample:
  "MakeCommand \<lparr>x_deg = ddiv 4095 1000, y_deg = ddiv 4095 1000\<rparr>
     = Inr [0x7e, 0x1f, 0, 0, 0x7e, 0x1f, 0, 0]
   \<and> get_int32 [0x7e, 0x1f, 0, 0, 0x7e, 0x1f, 0, 0] 0 = Inr 4094
   \<and> get_int32 [0x7e, 0x1f, 0, 0, 0x7e, 0x1f, 0, 0] 4 = Inr 4094"
  by code_simp

text \<open>
  C6, at the failing inputs. An absolute command of yaw 45 degrees, within the limits,
  writes 8191 to register 0x68; the limits -120 and 120 themselves encode to 8188 and
  8193, so the limitation to \<open>[0, 0x3fff]\<close> is never reached. Read back as the bytes
  7f 3f, 8191 decodes to about -0.00069 degrees, more than 45 degrees off, where one
  encoding unit is \<open>1 / (0x7fff * 360)\<close> of a degree. In the other direction the raw
  value 0 decodes to about -0.00139 degrees, which encodes to 8190.
\<close>

theorem absolute14_round_trip_lost:
  "SetCommand scenario_parameters 7 startup_data
      \<lparr>sequence = 1, absolute = Some \<lparr>x_deg = 45, y_deg = 0\<rparr>, imu = None,
         rate = None, laser_on = False\<rparr>
    = Inr (startup_data,
        [TurretCommandSignal \<lparr>log_timestamp = 7, log_command =
           \<lparr>sequence = 1, absolute = Some \<lparr>x_deg = 45, y_deg = 0\<rparr>, imu = None,
              rate = None, laser_on = False\<rparr>\<rparr>,
         RamWrite 98 0x50 4 0, RamWrite 98 0x68 2 8191, RamWrite 99 0x35 1 0]) \<and>
   encode_absolute14 45 = Inr 8191 \<and>
   encode_absolute14 (- 120) = Inr 8188 \<and>
   encode_absolute14 120 = Inr 8193 \<and>
   uint (0x7f :: uint8) OR push_bit 7 (uint (0x3f :: uint8)) = 8191 \<and>
   decode_absolute14 0x7f 0x3f = round_double (- 8192 / 11796120) \<and>
   1 / (0x7fff * 360) < 45 - decode_absolute14 0x7f 0x3f \<and>
   45 < 45 - decode_absolute14 0x7f 0x3f \<and>
   decode_absolute14 0 0 = round_double (- 16383 / 11796120) \<and>
   encode_absolute14 (decode_absolute14 0 0) = Inr 8190"
  by code_simp

section \<open>The claims about the poll tick\<close>

text \<open>
  C3. On a poll tick with \<open>imu_command\<close> known and a rate that is nonzero in either
  axis, the new \<open>imu_command\<close> is the old one plus rate times \<open>period_s\<close> (in
  double arithmetic), its pitch clamped by \<open>std::max(min_y_deg, std::min(max_y_deg, _))\<close>
  and so within \<open>[min_y_deg, max_y_deg]\<close> when the limits are in order, its yaw
  unclamped; that value is stored, and, its encoding being defined, written to the gimbal
  at register 0x50 before the telemetry read. In particular, from yaw 5.0 and pitch -2.0
  with period 0.0025, limits -30 and 30 and rate (10, 0), one tick stores the double 5.025
  as yaw and writes the bytes of -2000 and 5025.
\<close>

theorem DoPoll_rate_integration:
  "(imu_command d = Some c \<and>
    (x_deg_s (data_rate d) \<noteq> 0 \<or> y_deg_s (data_rate d) \<noteq> 0) \<and>
    next = \<lparr>x_deg = dadd (x_deg c) (dmul (x_deg_s (data_rate d)) (period_s p)),
            y_deg = std_max (min_y_deg p) (std_min (max_y_deg p)
                      (dadd (y_deg c) (dmul (y_deg_s (data_rate d)) (period_s p))))\<rparr> \<and>
    MakeCommand next = Inr data
    \<longrightarrow>
      DoPoll p d = Inr (d\<lparr>imu_command := Some next\<rparr>,
        [MemWrite (gimbal_address p) 0x50 data,
         MemRead (gimbal_address p) 0x58 10 ToHandleCurrent]) \<and>
      (min_y_deg p \<le> max_y_deg p \<longrightarrow> min_y_deg p \<le> y_deg next \<and> y_deg next \<le> max_y_deg p))
   \<and>
   DoPoll (p\<lparr>period_s := round_double (25 / 10000), min_y_deg := - 30, max_y_deg := 30\<rparr>)
          (d\<lparr>imu_command := Some \<lparr>x_deg = 5, y_deg = - 2\<rparr>,
             data_rate := \<lparr>x_deg_s = 10, y_deg_s = 0\<rparr>\<rparr>)
     = Inr (d\<lparr>imu_command := Some \<lparr>x_deg = round_double (5025 / 1000), y_deg = - 2\<rparr>,
              data_rate := \<lparr>x_deg_s = 10, y_deg_s = 0\<rparr>\<rparr>,
            [MemWrite (gimbal_address p) 0x50 [0x30, 0x70, 0x7f, 0x7f, 0x21, 0x27, 0, 0],
             MemRead (gimbal_address p) 0x58 10 ToHandleCurrent])"
proof (intro conjI impI)
  assume known: "imu_command d = Some c \<and>
    (x_deg_s (data_rate d) \<noteq> 0 \<or> y_deg_s (data_rate d) \<noteq> 0) \<and>
    next = \<lparr>x_deg = dadd (x_deg c) (dmul (x_deg_s (data_rate d)) (period_s p)),
            y_deg = std_max (min_y_deg p) (std_min (max_y_deg p)
                      (dadd (y_deg c) (dmul (y_deg_s (data_rate d)) (period_s p))))\<rparr> \<and>
    MakeCommand next = Inr data"
  then show "DoPoll p d = Inr (d\<lparr>imu_command := Some next\<rparr>,
        [MemWrite (gimbal_address p) 0x50 data,
         MemRead (gimbal_address p) 0x58 10 ToHandleCurrent])"
    using DoPoll_rate [of d c "next" p data] by blast
  assume "min_y_deg p \<le> max_y_deg p"
  then show "min_y_deg p \<le> y_deg next" and "y_deg next \<le> max_y_deg p"
    using known by (simp_all add: std_clamp_range)
next
  let ?p = "p\<lparr>period_s := round_double (25 / 10000), min_y_deg := - 30, max_y_deg := 30\<rparr>"
  let ?d = "d\<lparr>imu_command := Some \<lparr>x_deg = 5, y_deg = - 2\<rparr>,
              data_rate := \<lparr>x_deg_s = 10, y_deg_s = 0\<rparr>\<rparr>"
  have yaw: "dadd 5 (dmul 10 (round_double (1 / 400))) = round_double (201 / 40)"
    by code_simp
  have pitch: "std_max (- 30) (std_min 30 (dadd (- 2) (dmul 0 (round_double (1 / 400)))))
      = (- 2 :: double)"
    by code_simp
  have bytes: "MakeCommand \<lparr>x_deg = round_double (201 / 40), y_deg = - 2\<rparr>
      = Inr [0x30, 0x70, 0x7f, 0x7f, 0x21, 0x27, 0, 0]"
    by code_simp
  show "DoPoll ?p ?d
     = Inr (d\<lparr>imu_command := Some \<lparr>x_deg = round_double (5025 / 1000), y_deg = - 2\<rparr>,
              data_rate := \<lparr>x_deg_s = 10, y_deg_s = 0\<rparr>\<rparr>,
            [MemWrite (gimbal_address p) 0x50 [0x30, 0x70, 0x7f, 0x7f, 0x21, 0x27, 0, 0],
             MemRead (gimbal_address p) 0x58 10 ToHandleCurrent])"
    using DoPoll_rate [of ?d "\<lparr>x_deg = 5, y_deg = - 2\<rparr>"
        "\<lparr>x_deg = round_double (5025 / 1000), y_deg = - 2\<rparr>" ?p
        "[0x30, 0x70, 0x7f, 0x7f, 0x21, 0x27, 0, 0]"]
    by (simp add: yaw pitch bytes)
qed

text \<open>
  C3, witness: from yaw 5.0 and pitch 29.0 with rate (0, 1000) the pitch would reach 31.5
  and is stored and written as 30.
\<close>

theorem DoPoll_rate_integration_witness:
  "imu_command (startup_data\<lparr>imu_command := Some \<lparr>x_deg = 5, y_deg = 29\<rparr>,
                   data_rate := \<lparr>x_deg_s = 0, y_deg_s = 1000\<rparr>\<rparr>)
     = Some \<lparr>x_deg = 5, y_deg = 29\<rparr> \<and>
   y_deg_s (data_rate (startup_data\<lparr>imu_command := Some \<lparr>x_deg = 5, y_deg = 29\<rparr>,
                   data_rate := \<lparr>x_deg_s = 0, y_deg_s = 1000\<rparr>\<rparr>)) \<noteq> 0 \<and>
   MakeCommand \<lparr>x_deg = 5, y_deg = 30\<rparr> = Inr [0x30, 0x6a, 1, 0, 8, 0x27, 0, 0] \<and>
   min_y_deg scenario_parameters \<le> max_y_deg scenario_parameters \<and>
   DoPoll scenario_parameters
       (startup_data\<lparr>imu_command := Some \<lparr>x_deg = 5, y_deg = 29\<rparr>,
                   data_rate := \<lparr>x_deg_s = 0, y_deg_s = 1000\<rparr>\<rparr>)
     = Inr (startup_data\<lparr>imu_command := Some \<lparr>x_deg = 5, y_deg = 30\<rparr>,
                   data_rate := \<lparr>x_deg_s = 0, y_deg_s = 1000\<rparr>\<rparr>,
            [MemWrite 98 0x50 [0x30, 0x6a, 1, 0, 8, 0x27, 0, 0],
             MemRead 98 0x58 10 ToHandleCurrent])"
proof -
  let ?d = "startup_data\<lparr>imu_command := Some \<lparr>x_deg = 5, y_deg = 29\<rparr>,
                   data_rate := \<lparr>x_deg_s = 0, y_deg_s = 1000\<rparr>\<rparr>"
  have yaw: "dadd 5 (dmul 0 (period_s scenario_parameters)) = 5"
    by code_simp
  have pitch: "std_max (min_y_deg scenario_parameters) (std_min (max_y_deg scenario_parameters)
      (dadd 29 (dmul 1000 (period_s scenario_parameters)))) = 30"
    by code_simp
  have bytes: "MakeCommand \<lparr>x_deg = 5, y_deg = 30\<rparr> = Inr [0x30, 0x6a, 1, 0, 8, 0x27, 0, 0]"
    by code_simp
  have limits: "min_y_deg scenario_parameters \<le> max_y_deg scenario_parameters"
    by (simp add: scenario_parameters_def)
  have address: "gimbal_address scenario_parameters = 98"
    by (simp add: scenario_parameters_def)
  show ?thesis
    using DoPoll_rate_integration [of ?d "\<lparr>x_deg = 5, y_deg = 29\<rparr>"
        "\<lparr>x_deg = 5, y_deg = 30\<rparr>" scenario_parameters "[0x30, 0x6a, 1, 0, 8, 0x27, 0, 0]"]
    by (simp add: yaw pitch bytes limits address)
qed

text \<open>
  C9. A timer completion with \<open>operation_aborted\<close> returns at once: no new timer, no
  poll, no failure, the state as it was. Any other error code that is set is fatal. On
  success the timer is started again, then the poll runs.
\<close>

theorem HandleTimer_completion:
  "HandleTimer p d operation_aborted = Inr (d, []) \<and>
   (ec \<noteq> ec_success \<and> ec \<noteq> operation_aborted \<longrightarrow> HandleTimer p d ec = Inl Fatal) \<and>
   HandleTimer p d ec_success =
     and_then (DoPoll p d) (\<lambda>(d', polled). Inr (d', TimerStart (period_s p) # polled))"
  by (simp add: HandleTimer_def FailIf_def and_then_def StartTimer_def)

text \<open>
  C9, witness: an error code other than \<open>operation_aborted\<close> is fatal; an aborted
  timer leaves the startup state alone; a successful one at startup starts the timer and
  issues the two reads of the poll.
\<close>

theorem HandleTimer_completion_witness:
  "ec_other 5 \<noteq> ec_success \<and> ec_other 5 \<noteq> operation_aborted \<and>
   HandleTimer scenario_parameters startup_data (ec_other 5) = Inl Fatal \<and>
   HandleTimer scenario_parameters startup_data operation_aborted = Inr (startup_data, []) \<and>
   HandleTimer scenario_parameters startup_data ec_success =
     Inr (startup_data,
          [TimerStart (round_double (25 / 10000)),
           MemRead 98 0x50 8 ToHandleCommand, MemRead 98 0x58 10 ToHandleCurrent])"
proof -
  have poll: "DoPoll scenario_parameters startup_data =
     Inr (startup_data, [MemRead 98 0x50 8 ToHandleCommand, MemRead 98 0x58 10 ToHandleCurrent])"
    by (simp add: DoPoll_def startup_data_def scenario_parameters_def)
  have period: "period_s scenario_parameters = round_double (25 / 10000)"
    by (simp add: scenario_parameters_def)
  show ?thesis
    using HandleTimer_completion [of scenario_parameters startup_data "ec_other 5"]
    by (simp add: poll period and_then_def)
qed

section \<open>The claims about submitted commands\<close>

text \<open>
  C4. For an accepted absolute command, with the limits of each axis in order: a pitch
  above \<open>max_y_deg\<close> is written as \<open>max_y_deg\<close>, a pitch below \<open>min_y_deg\<close> as
  \<open>min_y_deg\<close>, any other as itself, each times 1000.0 and truncated, to register 0x50;
  the yaw is limited to \<open>[min_x_deg, max_x_deg]\<close> in the same way before
  \<open>encode_absolute14\<close> and written to register 0x68.
\<close>

theorem SetCommand_absolute_clamped:
  assumes "sequence command \<noteq> last_sequence d"
    and "absolute command = Some a"
    and "min_y_deg p \<le> max_y_deg p" and "min_x_deg p \<le> max_x_deg p"
    and "limited_pitch_deg =
          (if max_y_deg p < y_deg a then max_y_deg p
           else if y_deg a < min_y_deg p then min_y_deg p else y_deg a)"
    and "limited_yaw_deg =
          (if max_x_deg p < x_deg a then max_x_deg p
           else if x_deg a < min_x_deg p then min_x_deg p else x_deg a)"
    and "static_cast_int (dmul limited_pitch_deg 1000) = Inr pitch_command"
    and "encode_absolute14 limited_yaw_deg = Inr yaw_command"
  shows "SetCommand p now d command =
     Inr (d\<lparr>imu_command := None, data_rate := Rate0\<rparr>,
          [TurretCommandSignal \<lparr>log_timestamp = now, log_command = command\<rparr>,
           RamWrite (gimbal_address p) 0x50 4 pitch_command,
           RamWrite (gimbal_address p) 0x68 2 yaw_command,
           RamWrite (fire_control_address p) 0x35 1 (if laser_on command then 4 else 0)])
     \<and> min_x_deg p \<le> limited_yaw_deg \<and> limited_yaw_deg \<le> max_x_deg p"
proof -
  have pitch: "std_max (min_y_deg p) (std_min (max_y_deg p) (y_deg a)) = limited_pitch_deg"
    using assms(3,5) by (simp add: std_clamp_cases)
  have yaw: "std_max (min_x_deg p) (std_min (max_x_deg p) (x_deg a)) = limited_yaw_deg"
    using assms(4,6) by (simp add: std_clamp_cases)
  have "min_x_deg p \<le> limited_yaw_deg" and "limited_yaw_deg \<le> max_x_deg p"
    using std_clamp_range [OF assms(4), of "x_deg a"] by (simp_all add: yaw)
  moreover have "SetCommand p now d command =
     Inr (d\<lparr>imu_command := None, data_rate := Rate0\<rparr>,
          [TurretCommandSignal \<lparr>log_timestamp = now, log_command = command\<rparr>,
           RamWrite (gimbal_address p) 0x50 4 pitch_command,
           RamWrite (gimbal_address p) 0x68 2 yaw_command,
           RamWrite (fire_control_address p) 0x35 1 (if laser_on command then 4 else 0)])"
    using assms(7,8) by (intro SetCommand_absolute [OF assms(1,2)]) (simp_all add: pitch yaw)
  ultimately show ?thesis by simp
qed

text \<open>
  C4, witness: an absolute command of pitch 100 and yaw 200 degrees under limits of 30 and
  120 writes 30000 to the pitch register, and the encoding of yaw 120.
\<close>

theorem SetCommand_absolute_clamped_witness:
  "sequence \<lparr>sequence = 1, absolute = Some \<lparr>x_deg = 200, y_deg = 100\<rparr>, imu = None,
              rate = None, laser_on = True\<rparr> \<noteq> last_sequence startup_data \<and>
   min_y_deg scenario_parameters \<le> max_y_deg scenario_parameters \<and>
   min_x_deg scenario_parameters \<le> max_x_deg scenario_parameters \<and>
   static_cast_int (dmul 30 1000) = Inr 30000 \<and>
   encode_absolute14 120 = Inr 8193 \<and>
   SetCommand scenario_parameters 7 startup_data
      \<lparr>sequence = 1, absolute = Some \<lparr>x_deg = 200, y_deg = 100\<rparr>, imu = None,
         rate = None, laser_on = True\<rparr>
    = Inr (startup_data,
        [TurretCommandSignal \<lparr>log_timestamp = 7, log_command =
           \<lparr>sequence = 1, absolute = Some \<lparr>x_deg = 200, y_deg = 100\<rparr>, imu = None,
              rate = None, laser_on = True\<rparr>\<rparr>,
         RamWrite 98 0x50 4 30000, RamWrite 98 0x68 2 8193, RamWrite 99 0x35 1 4])"
proof -
  let ?c = "\<lparr>sequence = 1, absolute = Some \<lparr>x_deg = 200, y_deg = 100\<rparr>, imu = None,
              rate = None, laser_on = True\<rparr>"
  have pitch: "static_cast_int (dmul 30 1000) = Inr 30000"
    by code_simp
  have yaw: "encode_absolute14 120 = Inr 8193"
    by code_simp
  have same: "startup_data\<lparr>imu_command := None, data_rate := Rate0\<rparr> = startup_data"
    by (simp add: startup_data_def)
  have unknown: "last_sequence startup_data = 0"
    by (simp add: startup_data_def)
  have accepted: "sequence ?c \<noteq> last_sequence startup_data"
    by (simp add: unknown)
  have position: "absolute ?c = Some \<lparr>x_deg = 200, y_deg = 100\<rparr>"
    by simp
  have limits: "min_y_deg scenario_parameters \<le> max_y_deg scenario_parameters"
    "min_x_deg scenario_parameters \<le> max_x_deg scenario_parameters"
    by (simp_all add: scenario_parameters_def)
  have limited_pitch: "(30 :: double) =
      (if max_y_deg scenario_parameters < y_deg \<lparr>x_deg = 200, y_deg = 100\<rparr>
       then max_y_deg scenario_parameters
       else if y_deg \<lparr>x_deg = 200, y_deg = 100\<rparr> < min_y_deg scenario_parameters
       then min_y_deg scenario_parameters else y_deg \<lparr>x_deg = 200, y_deg = 100\<rparr>)"
    by (simp add: scenario_parameters_def)
  have limited_yaw: "(120 :: double) =
      (if max_x_deg scenario_parameters < x_deg \<lparr>x_deg = 200, y_deg = 100\<rparr>
       then max_x_deg scenario_parameters
       else if x_deg \<lparr>x_deg = 200, y_deg = 100\<rparr> < min_x_deg scenario_parameters
       then min_x_deg scenario_parameters else x_deg \<lparr>x_deg = 200, y_deg = 100\<rparr>)"
    by (simp add: scenario_parameters_def)
  have addresses: "gimbal_address scenario_parameters = 98"
    "fire_control_address scenario_parameters = 99"
    by (simp_all add: scenario_parameters_def)
  show ?thesis
    using SetCommand_absolute_clamped [OF accepted position limits limited_pitch limited_yaw
        pitch yaw, of 7]
    by (simp add: pitch yaw same unknown limits addresses)
qed

text \<open>
  C8, as amended. A command whose sequence differs from \<open>last_sequence\<close> ends, in
  every branch, with a write to the LED register 0x35 of the fire-control board, of 4
  (bit 2 set) when \<open>laser_on\<close> and of 0 (bit 2 clear) otherwise: after the two position
  writes of an absolute command, after the gimbal write of an IMU-relative command, and
  as the only write of a command with a rate or with nothing. This presupposes that the
  conversions of the position to \<open>int\<close> are defined; nothing else can keep the write
  from being made. A command whose sequence equals \<open>last_sequence\<close> is logged and
  writes nothing.
\<close>

theorem SetCommand_accepted_laser_write:
  "(sequence command \<noteq> last_sequence d \<longrightarrow>
      (absolute command = Some a \<and>
       static_cast_int (dmul (std_max (min_y_deg p) (std_min (max_y_deg p) (y_deg a))) 1000)
         = Inr pitch_command \<and>
       encode_absolute14 (std_max (min_x_deg p) (std_min (max_x_deg p) (x_deg a)))
         = Inr yaw_command
       \<longrightarrow>
         SetCommand p now d command =
           Inr (d\<lparr>imu_command := None, data_rate := Rate0\<rparr>,
             [TurretCommandSignal \<lparr>log_timestamp = now, log_command = command\<rparr>,
              RamWrite (gimbal_address p) 0x50 4 pitch_command,
              RamWrite (gimbal_address p) 0x68 2 yaw_command,
              RamWrite (fire_control_address p) 0x35 1 (if laser_on command then 4 else 0)])) \<and>
      (absolute command = None \<and> imu command = Some i \<and> MakeCommand i = Inr data
       \<longrightarrow>
         SetCommand p now d command =
           Inr (d\<lparr>imu_command := Some \<lparr>x_deg = x_deg i,
                    y_deg = std_max (min_y_deg p) (std_min (max_y_deg p) (y_deg i))\<rparr>,
                  data_rate := Rate0\<rparr>,
             [TurretCommandSignal \<lparr>log_timestamp = now, log_command = command\<rparr>,
              MemWrite (gimbal_address p) 0x50 data,
              RamWrite (fire_control_address p) 0x35 1 (if laser_on command then 4 else 0)])) \<and>
      (absolute command = None \<and> imu command = None
       \<longrightarrow>
         SetCommand p now d command =
           Inr (case rate command of Some r \<Rightarrow> d\<lparr>data_rate := r\<rparr> | None \<Rightarrow> d,
             [TurretCommandSignal \<lparr>log_timestamp = now, log_command = command\<rparr>,
              RamWrite (fire_control_address p) 0x35 1 (if laser_on command then 4 else 0)])) \<and>
      (SetCommand p now d command = Inl Undefined \<or>
       (\<exists>d' out. SetCommand p now d command =
          Inr (d', out @ [RamWrite (fire_control_address p) 0x35 1
                            (if laser_on command then 4 else 0)])))) \<and>
   (sequence command = last_sequence d \<longrightarrow>
      SetCommand p now d command =
        Inr (d, [TurretCommandSignal \<lparr>log_timestamp = now, log_command = command\<rparr>])) \<and>
   bit (if laser_on command then 4 else 0 :: int) 2 = laser_on command"
proof (intro conjI impI)
  assume accepted: "sequence command \<noteq> last_sequence d"
  {
    assume "absolute command = Some a \<and>
       static_cast_int (dmul (std_max (min_y_deg p) (std_min (max_y_deg p) (y_deg a))) 1000)
         = Inr pitch_command \<and>
       encode_absolute14 (std_max (min_x_deg p) (std_min (max_x_deg p) (x_deg a)))
         = Inr yaw_command"
    then show "SetCommand p now d command =
           Inr (d\<lparr>imu_command := None, data_rate := Rate0\<rparr>,
             [TurretCommandSignal \<lparr>log_timestamp = now, log_command = command\<rparr>,
              RamWrite (gimbal_address p) 0x50 4 pitch_command,
              RamWrite (gimbal_address p) 0x68 2 yaw_command,
              RamWrite (fire_control_address p) 0x35 1 (if laser_on command then 4 else 0)])"
      using SetCommand_absolute [OF accepted, of a p pitch_command yaw_command now] by blast
  }
  {
    assume "absolute command = None \<and> imu command = Some i \<and> MakeCommand i = Inr data"
    then show "SetCommand p now d command =
           Inr (d\<lparr>imu_command := Some \<lparr>x_deg = x_deg i,
                    y_deg = std_max (min_y_deg p) (std_min (max_y_deg p) (y_deg i))\<rparr>,
                  data_rate := Rate0\<rparr>,
             [TurretCommandSignal \<lparr>log_timestamp = now, log_command = command\<rparr>,
              MemWrite (gimbal_address p) 0x50 data,
              RamWrite (fire_control_address p) 0x35 1 (if laser_on command then 4 else 0)])"
      using SetCommand_imu [OF accepted, of i data p now] by blast
  }
  {
    assume "absolute command = None \<and> imu command = None"
    then show "SetCommand p now d command =
           Inr (case rate command of Some r \<Rightarrow> d\<lparr>data_rate := r\<rparr> | None \<Rightarrow> d,
             [TurretCommandSignal \<lparr>log_timestamp = now, log_command = command\<rparr>,
              RamWrite (fire_control_address p) 0x35 1 (if laser_on command then 4 else 0)])"
      using SetCommand_no_position [OF accepted, of p now] by blast
  }
  show "SetCommand p now d command = Inl Undefined \<or>
       (\<exists>d' out. SetCommand p now d command =
          Inr (d', out @ [RamWrite (fire_control_address p) 0x35 1
                            (if laser_on command then 4 else 0)]))"
    using accepted by (rule SetCommand_accepted_laser)
next
  assume "sequence command = last_sequence d"
  then show "SetCommand p now d command =
        Inr (d, [TurretCommandSignal \<lparr>log_timestamp = now, log_command = command\<rparr>])"
    by (simp add: SetCommand_discards_iff)
next
  show "bit (if laser_on command then 4 else 0 :: int) 2 = laser_on command"
    by (cases "laser_on command") (simp_all add: bit_iff_odd)
qed

text \<open>
  C8, witness: at startup, an absolute command with the laser on, an IMU-relative command
  with the laser off, a rate command with the laser on and a command with nothing but the
  laser off each end with the LED write; a command with sequence 0, which is
  \<open>last_sequence\<close>, is logged only.
\<close>

theorem SetCommand_accepted_laser_write_witness:
  "SetCommand scenario_parameters 7 startup_data
      \<lparr>sequence = 1, absolute = Some \<lparr>x_deg = 200, y_deg = 100\<rparr>, imu = None,
         rate = None, laser_on = True\<rparr>
    = Inr (startup_data,
        [TurretCommandSignal \<lparr>log_timestamp = 7, log_command =
           \<lparr>sequence = 1, absolute = Some \<lparr>x_deg = 200, y_deg = 100\<rparr>, imu = None,
              rate = None, laser_on = True\<rparr>\<rparr>,
         RamWrite 98 0x50 4 30000, RamWrite 98 0x68 2 8193, RamWrite 99 0x35 1 4]) \<and>
   SetCommand scenario_parameters 7 startup_data
      \<lparr>sequence = 2, absolute = None, imu = Some \<lparr>x_deg = 5, y_deg = - 2\<rparr>,
         rate = None, laser_on = False\<rparr>
    = Inr (startup_data\<lparr>imu_command := Some \<lparr>x_deg = 5, y_deg = - 2\<rparr>\<rparr>,
        [TurretCommandSignal \<lparr>log_timestamp = 7, log_command =
           \<lparr>sequence = 2, absolute = None, imu = Some \<lparr>x_deg = 5, y_deg = - 2\<rparr>,
              rate = None, laser_on = False\<rparr>\<rparr>,
         MemWrite 98 0x50 [0x30, 0x70, 0x7f, 0x7f, 8, 0x27, 0, 0], RamWrite 99 0x35 1 0]) \<and>
   SetCommand scenario_parameters 7 startup_data
      \<lparr>sequence = 3, absolute = None, imu = None,
         rate = Some \<lparr>x_deg_s = 10, y_deg_s = 0\<rparr>, laser_on = True\<rparr>
    = Inr (startup_data\<lparr>data_rate := \<lparr>x_deg_s = 10, y_deg_s = 0\<rparr>\<rparr>,
        [TurretCommandSignal \<lparr>log_timestamp = 7, log_command =
           \<lparr>sequence = 3, absolute = None, imu = None,
              rate = Some \<lparr>x_deg_s = 10, y_deg_s = 0\<rparr>, laser_on = True\<rparr>\<rparr>,
         RamWrite 99 0x35 1 4]) \<and>
   SetCommand scenario_parameters 7 startup_data
      \<lparr>sequence = 4, absolute = None, imu = None, rate = None, laser_on = False\<rparr>
    = Inr (startup_data,
        [TurretCommandSignal \<lparr>log_timestamp = 7, log_command =
           \<lparr>sequence = 4, absolute = None, imu = None, rate = None, laser_on = False\<rparr>\<rparr>,
         RamWrite 99 0x35 1 0]) \<and>
   SetCommand scenario_parameters 7 startup_data
      \<lparr>sequence = 0, absolute = None, imu = Some \<lparr>x_deg = 5, y_deg = - 2\<rparr>,
         rate = None, laser_on = True\<rparr>
    = Inr (startup_data,
        [TurretCommandSignal \<lparr>log_timestamp = 7, log_command =
           \<lparr>sequence = 0, absolute = None, imu = Some \<lparr>x_deg = 5, y_deg = - 2\<rparr>,
              rate = None, laser_on = True\<rparr>\<rparr>])"
proof -
  let ?absolute = "\<lparr>sequence = 1, absolute = Some \<lparr>x_deg = 200, y_deg = 100\<rparr>, imu = None,
         rate = None, laser_on = True\<rparr>"
  let ?imu = "\<lparr>sequence = 2, absolute = None, imu = Some \<lparr>x_deg = 5, y_deg = - 2\<rparr>,
         rate = None, laser_on = False\<rparr>"
  let ?rate = "\<lparr>sequence = 3, absolute = None, imu = None,
         rate = Some \<lparr>x_deg_s = 10, y_deg_s = 0\<rparr>, laser_on = True\<rparr>"
  let ?nothing = "\<lparr>sequence = 4, absolute = None, imu = None, rate = None, laser_on = False\<rparr>"
  let ?repeated = "\<lparr>sequence = 0, absolute = None, imu = Some \<lparr>x_deg = 5, y_deg = - 2\<rparr>,
         rate = None, laser_on = True\<rparr>"
  have unknown: "last_sequence startup_data = 0"
    by (simp add: startup_data_def)
  have addresses: "gimbal_address scenario_parameters = 98"
    "fire_control_address scenario_parameters = 99"
    by (simp_all add: scenario_parameters_def)
  have same: "startup_data\<lparr>imu_command := None, data_rate := Rate0\<rparr> = startup_data"
    "startup_data\<lparr>imu_command := Some \<lparr>x_deg = 5, y_deg = - 2\<rparr>, data_rate := Rate0\<rparr>
       = startup_data\<lparr>imu_command := Some \<lparr>x_deg = 5, y_deg = - 2\<rparr>\<rparr>"
    by (simp_all add: startup_data_def)
  have pitch: "static_cast_int (dmul (std_max (min_y_deg scenario_parameters)
      (std_min (max_y_deg scenario_parameters) (y_deg \<lparr>x_deg = 200, y_deg = 100\<rparr>))) 1000)
      = Inr 30000"
    by code_simp
  have yaw: "encode_absolute14 (std_max (min_x_deg scenario_parameters)
      (std_min (max_x_deg scenario_parameters) (x_deg \<lparr>x_deg = 200, y_deg = 100\<rparr>)))
      = Inr 8193"
    by code_simp
  have bytes: "MakeCommand \<lparr>x_deg = 5, y_deg = - 2\<rparr> = Inr [0x30, 0x70, 0x7f, 0x7f, 8, 0x27, 0, 0]"
    by code_simp
  have stored: "std_max (min_y_deg scenario_parameters)
      (std_min (max_y_deg scenario_parameters) (- 2)) = - 2"
    by code_simp
  have first: "SetCommand scenario_parameters 7 startup_data ?absolute =
      Inr (startup_data\<lparr>imu_command := None, data_rate := Rate0\<rparr>,
        [TurretCommandSignal \<lparr>log_timestamp = 7, log_command = ?absolute\<rparr>,
         RamWrite (gimbal_address scenario_parameters) 0x50 4 30000,
         RamWrite (gimbal_address scenario_parameters) 0x68 2 8193,
         RamWrite (fire_control_address scenario_parameters) 0x35 1
           (if laser_on ?absolute then 4 else 0)])"
    using SetCommand_accepted_laser_write [where command = ?absolute and d = startup_data
        and p = scenario_parameters and now = 7 and a = "\<lparr>x_deg = 200, y_deg = 100\<rparr>"
        and pitch_command = 30000 and yaw_command = 8193] pitch yaw
    by (simp add: unknown)
  have second: "SetCommand scenario_parameters 7 startup_data ?imu =
      Inr (startup_data\<lparr>imu_command := Some \<lparr>x_deg = x_deg \<lparr>x_deg = 5, y_deg = - 2\<rparr>,
              y_deg = std_max (min_y_deg scenario_parameters)
                (std_min (max_y_deg scenario_parameters) (y_deg \<lparr>x_deg = 5, y_deg = - 2\<rparr>))\<rparr>,
             data_rate := Rate0\<rparr>,
        [TurretCommandSignal \<lparr>log_timestamp = 7, log_command = ?imu\<rparr>,
         MemWrite (gimbal_address scenario_parameters) 0x50 [0x30, 0x70, 0x7f, 0x7f, 8, 0x27, 0, 0],
         RamWrite (fire_control_address scenario_parameters) 0x35 1
           (if laser_on ?imu then 4 else 0)])"
    using SetCommand_accepted_laser_write [where command = ?imu and d = startup_data
        and p = scenario_parameters and now = 7 and i = "\<lparr>x_deg = 5, y_deg = - 2\<rparr>"
        and data = "[0x30, 0x70, 0x7f, 0x7f, 8, 0x27, 0, 0]"] bytes
    by (simp add: unknown)
  have third: "SetCommand scenario_parameters 7 startup_data ?rate =
      Inr (case rate ?rate of Some r \<Rightarrow> startup_data\<lparr>data_rate := r\<rparr> | None \<Rightarrow> startup_data,
        [TurretCommandSignal \<lparr>log_timestamp = 7, log_command = ?rate\<rparr>,
         RamWrite (fire_control_address scenario_parameters) 0x35 1
           (if laser_on ?rate then 4 else 0)])"
    using SetCommand_accepted_laser_write [where command = ?rate and d = startup_data
        and p = scenario_parameters and now = 7]
    by (simp add: unknown)
  have fourth: "SetCommand scenario_parameters 7 startup_data ?nothing =
      Inr (case rate ?nothing of Some r \<Rightarrow> startup_data\<lparr>data_rate := r\<rparr> | None \<Rightarrow> startup_data,
        [TurretCommandSignal \<lparr>log_timestamp = 7, log_command = ?nothing\<rparr>,
         RamWrite (fire_control_address scenario_parameters) 0x35 1
           (if laser_on ?nothing then 4 else 0)])"
    using SetCommand_accepted_laser_write [where command = ?nothing and d = startup_data
        and p = scenario_parameters and now = 7]
    by (simp add: unknown)
  have fifth: "SetCommand scenario_parameters 7 startup_data ?repeated =
      Inr (startup_data, [TurretCommandSignal \<lparr>log_timestamp = 7, log_command = ?repeated\<rparr>])"
    using SetCommand_accepted_laser_write [where command = ?repeated and d = startup_data
        and p = scenario_parameters and now = 7]
    by (simp add: unknown)
  show ?thesis
    using first second third fourth fifth
    by (simp add: addresses same stored)
qed

text \<open>
  C8 as stated fails for a command that carries the sequence number held in
  \<open>last_sequence\<close>: it is logged and dropped before the LED write, laser on or not.
\<close>

theorem SetCommand_accepted_laser_write_counterexample:
  "SetCommand scenario_parameters 7 startup_data
      \<lparr>sequence = 0, absolute = None, imu = None,
         rate = Some \<lparr>x_deg_s = 10, y_deg_s = 0\<rparr>, laser_on = True\<rparr>
    = Inr (startup_data,
        [TurretCommandSignal \<lparr>log_timestamp = 7, log_command =
           \<lparr>sequence = 0, absolute = None, imu = None,
              rate = Some \<lparr>x_deg_s = 10, y_deg_s = 0\<rparr>, laser_on = True\<rparr>\<rparr>])"
  by (simp add: SetCommand_def Let_def startup_data_def)

text \<open>
  C7, at the failing input: an IMU-relative command of pitch 100 degrees under a limit of
  30. The state stores pitch 30, the bytes written to register 0x50 are those of the
  requested pitch, 100000, not those of 30000.
\<close>

theorem SetCommand_imu_writes_unclamped_pitch:
  "SetCommand scenario_parameters 7 startup_data
      \<lparr>sequence = 1, absolute = None, imu = Some \<lparr>x_deg = 0, y_deg = 100\<rparr>,
         rate = None, laser_on = False\<rparr>
    = Inr (startup_data\<lparr>imu_command := Some \<lparr>x_deg = 0, y_deg = 30\<rparr>\<rparr>,
        [TurretCommandSignal \<lparr>log_timestamp = 7, log_command =
           \<lparr>sequence = 1, absolute = None, imu = Some \<lparr>x_deg = 0, y_deg = 100\<rparr>,
              rate = None, laser_on = False\<rparr>\<rparr>,
         MemWrite 98 0x50 [0x20, 0x0d, 6, 0, 0, 0, 0, 0],
         RamWrite 99 0x35 1 0])
   \<and> MakeCommand \<lparr>x_deg = 0, y_deg = 100\<rparr> = Inr [0x20, 0x0d, 6, 0, 0, 0, 0, 0]
   \<and> MakeCommand \<lparr>x_deg = 0, y_deg = 30\<rparr> = Inr [0x30, 0x6a, 1, 0, 0, 0, 0, 0]
   \<and> get_int32 [0x20, 0x0d, 6, 0, 0, 0, 0, 0] 0 = Inr 100000"
  by code_simp

text \<open>
  C2, at the failing input: two commands with the same sequence number 7, submitted to a
  turret whose \<open>last_sequence\<close> is 0. The second one is arbitrated like the first: it
  sets the rate to 20 and writes the LED register.
\<close>

theorem SetCommand_repeated_sequence_arbitrated:
  "run scenario_parameters startup_data
      [Submit 1 \<lparr>sequence = 7, absolute = None, imu = None,
                  rate = Some \<lparr>x_deg_s = 10, y_deg_s = 0\<rparr>, laser_on = False\<rparr>,
       Submit 2 \<lparr>sequence = 7, absolute = None, imu = None,
                  rate = Some \<lparr>x_deg_s = 20, y_deg_s = 0\<rparr>, laser_on = True\<rparr>]
    = Inr (startup_data\<lparr>data_rate := \<lparr>x_deg_s = 20, y_deg_s = 0\<rparr>\<rparr>,
        [TurretCommandSignal \<lparr>log_timestamp = 1, log_command =
           \<lparr>sequence = 7, absolute = None, imu = None,
              rate = Some \<lparr>x_deg_s = 10, y_deg_s = 0\<rparr>, laser_on = False\<rparr>\<rparr>,
         RamWrite 99 0x35 1 0,
         TurretCommandSignal \<lparr>log_timestamp = 2, log_command =
           \<lparr>sequence = 7, absolute = None, imu = None,
              rate = Some \<lparr>x_deg_s = 20, y_deg_s = 0\<rparr>, laser_on = True\<rparr>\<rparr>,
         RamWrite 99 0x35 1 4])"
  by code_simp

section \<open>The claim about last_sequence\<close>

text \<open>
  C10. Whatever commands are submitted and whatever completions arrive, in any order, a
  run that comes to its end leaves \<open>last_sequence\<close> as it was at the start; so the
  commands that the guard of \<open>SetCommand\<close> drops afterwards (logged, nothing else done)
  are exactly those whose sequence number is that initial value.
\<close>

theorem run_keeps_last_sequence:
  assumes "run p d es = Inr (d', out)"
  shows "last_sequence d' = last_sequence d \<and>
     (\<forall>now command.
        (SetCommand p now d' command =
           Inr (d', [TurretCommandSignal \<lparr>log_timestamp = now, log_command = command\<rparr>]))
        = (sequence command = last_sequence d))"
  using run_last_sequence [OF assms] by (simp add: SetCommand_discards_iff)

text \<open>
  C10, witness: the end-to-end scenario of the spec. A rate command with sequence 7 is
  submitted, the command registers are read as pitch -2.0 and yaw 5.0, a poll tick
  integrates the rate; \<open>last_sequence\<close> is still 0, and a second command with sequence
  7 is not dropped.
\<close>

theorem run_keeps_last_sequence_witness:
  "(case run scenario_parameters startup_data
      [Submit 1 \<lparr>sequence = 7, absolute = None, imu = None,
                  rate = Some \<lparr>x_deg_s = 10, y_deg_s = 0\<rparr>, laser_on = False\<rparr>,
       CommandDone 2 ec_success [0x30, 0x70, 0x7f, 0x7f, 8, 0x27, 0, 0],
       TimerDone ec_success]
    of Inl e \<Rightarrow> False
     | Inr (d', out) \<Rightarrow>
         imu_command d' = Some \<lparr>x_deg = round_double (5025 / 1000), y_deg = - 2\<rparr> \<and>
         last_sequence d' = last_sequence startup_data \<and>
         SetCommand scenario_parameters 3 d'
            \<lparr>sequence = 7, absolute = None, imu = None, rate = None, laser_on = False\<rparr>
          \<noteq> Inr (d', [TurretCommandSignal \<lparr>log_timestamp = 3, log_command =
            \<lparr>sequence = 7, absolute = None, imu = None, rate = None, laser_on = False\<rparr>\<rparr>]))"
proof -
  let ?es = "[Submit 1 \<lparr>sequence = 7, absolute = None, imu = None,
                  rate = Some \<lparr>x_deg_s = 10, y_deg_s = 0\<rparr>, laser_on = False\<rparr>,
       CommandDone 2 ec_success [0x30, 0x70, 0x7f, 0x7f, 8, 0x27, 0, 0],
       TimerDone ec_success]"
  let ?d = "startup_data\<lparr>timestamp := 2,
       imu_command := Some \<lparr>x_deg = round_double (5025 / 1000), y_deg = - 2\<rparr>,
       data_rate := \<lparr>x_deg_s = 10, y_deg_s = 0\<rparr>\<rparr>"
  have "case run scenario_parameters startup_data ?es of
      Inl e \<Rightarrow> False | Inr (d', out) \<Rightarrow> d' = ?d"
    by code_simp
  then obtain out where ran: "run scenario_parameters startup_data ?es = Inr (?d, out)"
    by (auto split: sum.splits)
  let ?c = "\<lparr>sequence = 7, absolute = None, imu = None, rate = None, laser_on = False\<rparr>"
  have other: "sequence ?c \<noteq> last_sequence startup_data"
    by (simp add: startup_data_def)
  have keeps: "last_sequence ?d = last_sequence startup_data"
    using run_keeps_last_sequence [OF ran] by blast
  have arbitrated: "SetCommand scenario_parameters 3 ?d ?c
      \<noteq> Inr (?d, [TurretCommandSignal \<lparr>log_timestamp = 3, log_command = ?c\<rparr>])"
    using run_keeps_last_sequence [OF ran] other by blast
  show ?thesis
    unfolding ran using keeps arbitrated by simp
qed

end
